theory Spec2Isabelle
  imports Complex_Main
begin

section \<open>JavaScript values as the edge functions see them\<close>

text \<open>
  The three edge functions (performance intervention, the minimal direct chat and the
  authenticated direct chat) receive and produce JSON. A parsed JSON document is a
  \<open>json\<close>; JavaScript's \<open>undefined\<close> (a missing property, a missing array element) is
  \<open>None\<close> of \<open>json option\<close>. A JSON number is carried as the rational that its literal
  denotes; what the handlers compute with is its binary64 value, \<open>binary64\<close> below.
\<close>

datatype json =
    JNull
  | JBool bool
  | JNum rat
  | JStr string
  | JArr "json list"
  | JObj "(string \<times> json) list"

type_synonym jsval = "json option"

type_synonym row = "(string \<times> json) list"

section \<open>Numbers\<close>

text \<open>
  JavaScript numbers are binary64. \<open>JSON.parse\<close> gives a numeric literal the nearest
  binary64 value, ties to the even significand, and every arithmetic operation rounds
  its exact result the same way. \<open>round_half_even\<close> is rounding to the nearest integer,
  ties to even.
\<close>

definition round_half_even :: "rat \<Rightarrow> int" where
  "round_half_even y =
     (let f = \<lfloor>y\<rfloor>; d = y - of_int f
      in if d < 1 / 2 then f else if 1 / 2 < d then f + 1 else if even f then f else f + 1)"

text \<open>
  Rounding of a non-negative number to 53 significant bits, counted in units of the
  smallest positive binary64 value: below \<open>2 ^ 53\<close> units the spacing is one unit, and
  it doubles with every doubling of the number.
\<close>

function round_scaled :: "rat \<Rightarrow> rat" where
  "round_scaled y = (if y < 2 ^ 53 then of_int (round_half_even y) else 2 * round_scaled (y / 2))"
  by pat_completeness auto
termination
proof (relation "measure (\<lambda>y. nat \<lfloor>y\<rfloor>)")
  show "wf (measure (\<lambda>y::rat. nat \<lfloor>y\<rfloor>))" by simp
next
  fix y :: rat
  assume "\<not> y < 2 ^ 53"
  then have y: "1 \<le> y" by simp
  then have pos: "1 \<le> \<lfloor>y\<rfloor>" by simp
  then have "(1::rat) \<le> of_int \<lfloor>y\<rfloor>" by linarith
  moreover have "y < of_int \<lfloor>y\<rfloor> + 1" by linarith
  ultimately have "y / 2 < of_int \<lfloor>y\<rfloor>" by linarith
  then have "\<lfloor>y / 2\<rfloor> < \<lfloor>y\<rfloor>"
    by (simp only: floor_less_iff)
  with pos show "(y / 2, y) \<in> measure (\<lambda>y. nat \<lfloor>y\<rfloor>)"
    by simp
qed

declare round_scaled.simps [simp del]

text \<open>
  The smallest positive binary64 value is \<open>2 ^ -1074\<close>. A magnitude that rounds to
  \<open>2 ^ 1024\<close> or beyond is \<open>Infinity\<close> in binary64; \<open>Infinity\<close> is carried as
  \<open>2 ^ 1024\<close>, which compares with every finite value and subtracts as \<open>Infinity\<close> does
  (\<open>Infinity - 10\<close> is \<open>Infinity\<close>, and nothing is below \<open>-Infinity\<close>). \<open>NaN\<close> does not
  arise: no JSON literal denotes it and no operation of the handlers produces it.
\<close>

definition scale64 :: rat where
  "scale64 = 2 ^ 1074"

definition infinity64 :: rat where
  "infinity64 = 2 ^ 1024"

definition magnitude64 :: "rat \<Rightarrow> rat" where
  "magnitude64 a = min infinity64 (round_scaled (a * scale64) / scale64)"

definition binary64 :: "rat \<Rightarrow> rat" where
  "binary64 x = (if x < 0 then - magnitude64 \<bar>x\<bar> else magnitude64 \<bar>x\<bar>)"

text \<open>
  The values the handlers throw and catch. \<open>Error m\<close> is \<open>new Error(m)\<close> of the source;
  \<open>TypeError\<close> is what reading a property of \<open>undefined\<close> or \<open>null\<close> (or spreading a
  non-iterable) raises, \<open>SyntaxError\<close> what \<open>response.json()\<close> and \<open>req.json()\<close> raise on a
  body that is not JSON, \<open>AbortError\<close> what an aborted \<open>fetch\<close> rejects with,
  \<open>NetworkFailure\<close> what \<open>fetch\<close> rejects with when the connection fails, and
  \<open>StoreFailure\<close> a rejection of a data-store call.
\<close>

datatype js_error =
    Error string
  | TypeError
  | SyntaxError
  | AbortError
  | NetworkFailure
  | StoreFailure

definition nl :: string where
  "nl = [CHR 0x0A]"

definition apostrophe :: string where
  "apostrophe = [CHR 0x27]"

text \<open>
  Truthiness, as \<open>!x\<close>, \<open>x && y\<close> and \<open>x || y\<close> test it. A number is falsy when its
  binary64 value is zero.
\<close>

fun truthy :: "jsval \<Rightarrow> bool" where
  "truthy None = False"
| "truthy (Some JNull) = False"
| "truthy (Some (JBool b)) = b"
| "truthy (Some (JNum n)) = (binary64 n \<noteq> 0)"
| "truthy (Some (JStr s)) = (s \<noteq> [])"
| "truthy (Some (JArr xs)) = True"
| "truthy (Some (JObj kvs)) = True"

text \<open>\<open>x == null\<close>: the values that \<open>?.\<close> short-circuits on and \<open>??\<close> replaces.\<close>

fun nullish :: "jsval \<Rightarrow> bool" where
  "nullish None = True"
| "nullish (Some JNull) = True"
| "nullish (Some v) = False"

text \<open>
  Reading a named property of a non-nullish value. Only the names \<open>choices\<close>,
  \<open>message\<close>, \<open>content\<close>, \<open>messages\<close>, \<open>student_id\<close> and column names are read, none of
  which a string, number, boolean or array carries, so those give \<open>undefined\<close>.
\<close>

fun get_prop :: "json \<Rightarrow> string \<Rightarrow> jsval" where
  "get_prop (JObj kvs) k = map_of kvs k"
| "get_prop v k = None"

text \<open>Reading index \<open>0\<close> of a non-nullish value: \<open>x[0]\<close>.\<close>

fun get_index0 :: "json \<Rightarrow> jsval" where
  "get_index0 (JArr []) = None"
| "get_index0 (JArr (x # xs)) = Some x"
| "get_index0 (JStr []) = None"
| "get_index0 (JStr (c # cs)) = Some (JStr [c])"
| "get_index0 (JObj kvs) = map_of kvs ''0''"
| "get_index0 v = None"

text \<open>\<open>x?.k\<close> and \<open>x?.[0]\<close>: optional chaining never throws.\<close>

definition opt_prop :: "jsval \<Rightarrow> string \<Rightarrow> jsval" where
  "opt_prop x k = (case x of None \<Rightarrow> None | Some JNull \<Rightarrow> None | Some v \<Rightarrow> get_prop v k)"

definition opt_index0 :: "jsval \<Rightarrow> jsval" where
  "opt_index0 x = (case x of None \<Rightarrow> None | Some JNull \<Rightarrow> None | Some v \<Rightarrow> get_index0 v)"

text \<open>\<open>x.k\<close> and \<open>x[0]\<close>: plain access throws a \<open>TypeError\<close> on \<open>undefined\<close> and \<open>null\<close>.\<close>

definition strict_prop :: "jsval \<Rightarrow> string \<Rightarrow> js_error + jsval" where
  "strict_prop x k = (if nullish x then Inl TypeError else Inr (opt_prop x k))"

definition strict_index0 :: "jsval \<Rightarrow> js_error + jsval" where
  "strict_index0 x = (if nullish x then Inl TypeError else Inr (opt_index0 x))"

text \<open>\<open>a ?? b\<close>.\<close>

definition coalesce :: "jsval \<Rightarrow> jsval \<Rightarrow> jsval" where
  "coalesce a b = (if nullish a then b else a)"

text \<open>
  A substitution \<open>${x}\<close> of a template literal. The text of \<open>undefined\<close>, \<open>null\<close>, a
  boolean and a string is fixed; the text of a number, an array and an object is the
  runtime's \<open>ToString\<close>, taken as the parameter \<open>ts\<close>.
\<close>

fun template :: "(json \<Rightarrow> string) \<Rightarrow> jsval \<Rightarrow> string" where
  "template ts None = ''undefined''"
| "template ts (Some JNull) = ''null''"
| "template ts (Some (JBool b)) = (if b then ''true'' else ''false'')"
| "template ts (Some (JStr s)) = s"
| "template ts (Some v) = ts v"

text \<open>\<open>xs.join(sep)\<close> on an array of strings.\<close>

fun js_join :: "string \<Rightarrow> string list \<Rightarrow> string" where
  "js_join sep [] = []"
| "js_join sep [x] = x"
| "js_join sep (x # y # ys) = x @ sep @ js_join sep (y # ys)"

text \<open>
  \<open>rows?.map(f).join('\n') || placeholder\<close>: a \<open>null\<close> result of the query gives
  \<open>undefined\<close>, an empty array gives the empty string; both are falsy.
\<close>

definition list_section :: "(row \<Rightarrow> string) \<Rightarrow> row list option \<Rightarrow> string \<Rightarrow> string" where
  "list_section f rows placeholder =
     (case rows of
        None \<Rightarrow> placeholder
      | Some rs \<Rightarrow> (let joined = js_join nl (map f rs)
                   in if joined = [] then placeholder else joined))"

text \<open>A column of a row, and a column of a row that may be \<open>null\<close> (\<open>profile?.full_name\<close>).\<close>

definition col :: "row \<Rightarrow> string \<Rightarrow> jsval" where
  "col r k = map_of r k"

definition opt_col :: "row option \<Rightarrow> string \<Rightarrow> jsval" where
  "opt_col r k = (case r of None \<Rightarrow> None | Some kvs \<Rightarrow> map_of kvs k)"

text \<open>\<open>x || d\<close> where \<open>d\<close> is a string literal.\<close>

definition or_else :: "jsval \<Rightarrow> string \<Rightarrow> jsval" where
  "or_else x d = (if truthy x then x else Some (JStr d))"

section \<open>The outside world\<close>

text \<open>
  Everything a handler reads from outside is a field of \<open>environment\<close>: the process
  environment variables, the clock, what the upstream chat-completion service does with
  the one outbound call, what each data-store query returns and what the data store does
  with an insert. Everything a handler does to the outside is a field of \<open>effects\<close>: the
  rows of \<open>chat_messages\<close>, the calls made to the AI gateway, the console, the time spent
  waiting for the upstream, and the timers and outbound calls still pending. The
  cross-origin headers, which every response carries, are left out.
\<close>

record http_response =
  resp_status :: nat
  resp_json :: "json option"

definition ok :: "http_response \<Rightarrow> bool" where
  "ok r = (200 \<le> resp_status r \<and> resp_status r \<le> 299)"

text \<open>
  The upstream answers after so many milliseconds, or the connection breaks after so
  many milliseconds, or nothing ever comes back.
\<close>

datatype upstream = Answers nat http_response | Breaks nat | Silent

text \<open>
  An insert is stored, or refused (the client resolves with an \<open>error\<close> field, which no
  handler reads), or the call rejects.
\<close>

datatype db_write = Stored | Refused | Raised js_error

record environment =
  SUPABASE_URL :: "string option"
  SUPABASE_SERVICE_ROLE_KEY :: "string option"
  OPENROUTER_API_KEY :: "string option"
  LOVABLE_API_KEY :: "string option"
  date_now :: nat
  upstream_does :: upstream
  insert_does :: db_write
  profile_row :: "row option"
  performance_rows :: "row list option"
  mentor_rows :: "row list option"
  resource_rows :: "row list option"
  auth_user :: "string \<Rightarrow> string option"

record metadata =
  md_trigger :: string
  md_subject :: string
  md_grade :: rat
  md_previous_grade :: "rat option"

record chat_message =
  cm_student_id :: json
  cm_role :: string
  cm_content :: jsval
  cm_metadata :: "metadata option"

record ai_request =
  endpoint :: string
  bearer :: "string option"
  model :: string
  system_prompt :: string
  turns :: "json list"
  max_tokens :: "nat option"
  temperature :: "rat option"
  stream :: "bool option"

datatype level = LogError | LogWarn | LogInfo

record effects =
  chat_messages :: "chat_message list"
  ai_calls :: "ai_request list"
  console :: "(level \<times> string) list"
  waited_ms :: nat
  armed_timers :: nat
  open_calls :: nat

definition log :: "level \<Rightarrow> string \<Rightarrow> effects \<Rightarrow> effects" where
  "log lv msg w = w\<lparr>console := console w @ [(lv, msg)]\<rparr>"

text \<open>
  The bodies of the responses, one constructor for each object literal that the
  handlers serialise. A body built in a \<open>catch\<close> keeps the caught value: the source
  sends its \<open>message\<close>.
\<close>

datatype resp_body =
    Preflight
  | NotTriggered string
  | Triggered jsval string string
  | InterventionFailed js_error
  | ChatReply jsval string
  | ChatError string
  | ChatFailed js_error
  | AuthReply jsval
  | AuthFailed js_error

record response =
  status :: nat
  body :: resp_body

text \<open>\<open>Deno.env.get(name) ?? ''\<close>.\<close>

definition env_or_empty :: "string option \<Rightarrow> string" where
  "env_or_empty v = (case v of None \<Rightarrow> [] | Some s \<Rightarrow> s)"

text \<open>
  \<open>await fetch(url, init)\<close> with no abort signal: the call settles when the upstream
  answers or breaks, and never settles on a silent upstream (\<open>None\<close>).
\<close>

datatype settled = Resolved http_response | Rejected js_error

fun fetch_plain :: "upstream \<Rightarrow> effects \<Rightarrow> (settled \<times> effects) option" where
  "fetch_plain (Answers t r) w = Some (Resolved r, w\<lparr>waited_ms := waited_ms w + t\<rparr>)"
| "fetch_plain (Breaks t) w = Some (Rejected NetworkFailure, w\<lparr>waited_ms := waited_ms w + t\<rparr>)"
| "fetch_plain Silent w = None"

section \<open>The performance-intervention function\<close>

text \<open>
  The request body \<open>{student_id, subject, new_grade, previous_grade}\<close>, typed as its
  callers send it: two strings, a number, and a number that may be \<open>null\<close> or absent
  (\<open>None\<close>). The numbers are carried as their literals and read through \<open>binary64\<close>.
\<close>

record intervention_request =
  req_student_id :: string
  req_subject :: string
  req_new_grade :: rat
  req_previous_grade :: "rat option"

text \<open>
  \<open>previous_grade\<close> is tested by truthiness in the source (\<open>previous_grade && ...\<close>,
  \<open>!previous_grade\<close>, \<open>previous_grade || ...\<close>): \<open>null\<close>, \<open>undefined\<close> and \<open>0\<close> are falsy.
  The two comparisons are comparisons of binary64 values, and the subtraction
  \<open>previous_grade - 10\<close> rounds.
\<close>

definition has_previous :: "rat option \<Rightarrow> bool" where
  "has_previous previous_grade = truthy (map_option JNum previous_grade)"

definition isLowGrade :: "rat \<Rightarrow> bool" where
  "isLowGrade new_grade = (binary64 new_grade < 50)"

definition gradeDropped :: "rat \<Rightarrow> rat option \<Rightarrow> bool" where
  "gradeDropped new_grade previous_grade =
     (case previous_grade of
        None \<Rightarrow> False
      | Some p \<Rightarrow>
          has_previous previous_grade \<and> binary64 new_grade < binary64 (binary64 p - 10))"

definition isFirstAssessment :: "rat option \<Rightarrow> bool" where
  "isFirstAssessment previous_grade = (\<not> has_previous previous_grade)"

text \<open>The early return is taken when \<open>!isLowGrade && !gradeDropped\<close>; otherwise the intervention fires.\<close>

definition intervention_needed :: "rat \<Rightarrow> rat option \<Rightarrow> bool" where
  "intervention_needed new_grade previous_grade =
     (\<not> (\<not> isLowGrade new_grade \<and> \<not> gradeDropped new_grade previous_grade))"

definition status_label :: "rat \<Rightarrow> rat option \<Rightarrow> string" where
  "status_label new_grade previous_grade =
     (if isFirstAssessment previous_grade then ''First Low Grade''
      else if isLowGrade new_grade then ''Low Grade''
      else ''Grade Drop'')"

definition tutor_line :: "(json \<Rightarrow> string) \<Rightarrow> row \<Rightarrow> string" where
  "tutor_line ts mentor =
     ''- '' @ template ts (col mentor ''name'') @ '' ('' @ template ts (col mentor ''expertise'')
       @ ''): '' @ template ts (col mentor ''contact_info'')"

definition material_line :: "(json \<Rightarrow> string) \<Rightarrow> row \<Rightarrow> string" where
  "material_line ts resource =
     ''- '' @ template ts (col resource ''name'') @ '': '' @ template ts (col resource ''description'')
       @ '' - '' @ template ts (col resource ''contact_info'')"

definition performanceContext :: "(json \<Rightarrow> string) \<Rightarrow> environment \<Rightarrow> intervention_request \<Rightarrow> string" where
  "performanceContext ts env req =
     nl @ ''STUDENT PERFORMANCE UPDATE:'' @ nl
     @ ''- Student: '' @ template ts (opt_col (profile_row env) ''full_name'') @ nl
     @ ''- Grade Level: '' @ template ts (opt_col (profile_row env) ''grade'') @ nl
     @ ''- Subject: '' @ req_subject req @ nl
     @ ''- New Grade: '' @ template ts (Some (JNum (req_new_grade req))) @ ''%'' @ nl
     @ ''- Previous Grade: ''
       @ template ts (or_else (map_option JNum (req_previous_grade req)) ''First assessment'') @ nl
     @ ''- Status: '' @ status_label (req_new_grade req) (req_previous_grade req) @ nl
     @ nl
     @ ''AVAILABLE HELP:'' @ nl
     @ ''TUTORS:'' @ nl
     @ list_section (tutor_line ts) (mentor_rows env) ''No tutors available'' @ nl
     @ nl
     @ ''RESOURCES:'' @ nl
     @ list_section (material_line ts) (resource_rows env) ''No resources available'' @ nl"

definition intervention_systemPrompt :: "(json \<Rightarrow> string) \<Rightarrow> environment \<Rightarrow> intervention_request \<Rightarrow> string" where
  "intervention_systemPrompt ts env req =
     ''You are an AI academic counselor for MindYaMsanzi. A student'' @ apostrophe
       @ ''s performance needs intervention.'' @ nl
     @ nl
     @ ''STUDENT SITUATION:'' @ nl
     @ performanceContext ts env req @ nl
     @ nl
     @ ''RESPONSE STRUCTURE:'' @ nl
     @ ''1. Start with empathetic concern about the '' @ req_subject req @ '' grade'' @ nl
     @ ''2. Ask what challenges they'' @ apostrophe @ ''re facing with '' @ req_subject req @ nl
     @ ''3. Recommend specific study resources mentioned above'' @ nl
     @ ''4. Suggest contacting the available tutors'' @ nl
     @ ''5. End with encouragement'' @ nl
     @ nl
     @ ''Be warm, understanding, and focus on practical help.''"

definition intervention_user_turn :: "(json \<Rightarrow> string) \<Rightarrow> intervention_request \<Rightarrow> json" where
  "intervention_user_turn ts req =
     JObj [(''role'', JStr ''user''),
           (''content'', JStr (''Student got '' @ template ts (Some (JNum (req_new_grade req))) @ ''% in ''
              @ req_subject req @ ''. ''
              @ (if isFirstAssessment (req_previous_grade req) then ''This is their first assessment.''
                 else ''Previous was '' @ template ts (map_option JNum (req_previous_grade req)) @ ''%.'')))]"

definition intervention_ai_request :: "(json \<Rightarrow> string) \<Rightarrow> environment \<Rightarrow> intervention_request \<Rightarrow> ai_request" where
  "intervention_ai_request ts env req =
     \<lparr>endpoint = ''https://openrouter.ai/api/v1/chat/completions'',
      bearer = OPENROUTER_API_KEY env,
      model = ''tngtech/deepseek-r1t2-chimera:free'',
      system_prompt = intervention_systemPrompt ts env req,
      turns = [intervention_user_turn ts req],
      max_tokens = Some 600,
      temperature = Some (7 / 10),
      stream = None\<rparr>"

text \<open>\<open>data.choices[0].message.content\<close>, with plain (throwing) access at every step.\<close>

definition content_unguarded :: "json \<Rightarrow> js_error + jsval" where
  "content_unguarded data =
     (case strict_prop (Some data) ''choices'' of
        Inl e \<Rightarrow> Inl e
      | Inr choices \<Rightarrow>
          (case strict_index0 choices of
             Inl e \<Rightarrow> Inl e
           | Inr choice \<Rightarrow>
               (case strict_prop choice ''message'' of
                  Inl e \<Rightarrow> Inl e
                | Inr message \<Rightarrow> strict_prop message ''content'')))"

definition intervention_row :: "intervention_request \<Rightarrow> jsval \<Rightarrow> chat_message" where
  "intervention_row req aiMessage =
     \<lparr>cm_student_id = JStr (req_student_id req),
      cm_role = ''assistant'',
      cm_content = aiMessage,
      cm_metadata = Some \<lparr>md_trigger = ''performance_intervention'',
                          md_subject = req_subject req,
                          md_grade = req_new_grade req,
                          md_previous_grade = req_previous_grade req\<rparr>\<rparr>"

definition intervention_chatId :: "(json \<Rightarrow> string) \<Rightarrow> environment \<Rightarrow> intervention_request \<Rightarrow> string" where
  "intervention_chatId ts env req =
     ''intervention_'' @ template ts (Some (JNum (of_nat (date_now env)))) @ ''_'' @ req_student_id req"

text \<open>
  The \<open>try\<close> block of the handler. The result is \<open>None\<close> when the handler never
  returns (the outbound call has no time limit), otherwise the response or the thrown
  value, with the effects so far.
\<close>

definition intervention_try ::
  "(json \<Rightarrow> string) \<Rightarrow> environment \<Rightarrow> intervention_request \<Rightarrow> effects
     \<Rightarrow> ((js_error + response) \<times> effects) option" where
  "intervention_try ts env req w =
     (if env_or_empty (SUPABASE_URL env) = [] \<or> env_or_empty (SUPABASE_SERVICE_ROLE_KEY env) = []
      then Some (Inl (Error ''Missing Supabase environment variables''), w)
      else if \<not> isLowGrade (req_new_grade req)
                \<and> \<not> gradeDropped (req_new_grade req) (req_previous_grade req)
      then Some (Inr \<lparr>status = 200, body = NotTriggered ''Grades satisfactory''\<rparr>, w)
      else if env_or_empty (OPENROUTER_API_KEY env) = []
      then Some (Inl (Error ''Missing OpenRouter API key''), w)
      else
        (case fetch_plain (upstream_does env)
                (w\<lparr>ai_calls := ai_calls w @ [intervention_ai_request ts env req]\<rparr>) of
           None \<Rightarrow> None
         | Some (Rejected e, w1) \<Rightarrow> Some (Inl e, w1)
         | Some (Resolved r, w1) \<Rightarrow>
             if \<not> ok r
             then Some (Inl (Error (''OpenRouter API error: ''
                                     @ template ts (Some (JNum (of_nat (resp_status r)))))), w1)
             else
               (case resp_json r of
                  None \<Rightarrow> Some (Inl SyntaxError, w1)
                | Some data \<Rightarrow>
                    (case content_unguarded data of
                       Inl e \<Rightarrow> Some (Inl e, w1)
                     | Inr aiMessage \<Rightarrow>
                         (let reply = \<lparr>status = 200,
                                       body = Triggered aiMessage (req_subject req)
                                                (intervention_chatId ts env req)\<rparr>
                          in case insert_does env of
                               Raised e \<Rightarrow> Some (Inl e, w1)
                             | Refused \<Rightarrow> Some (Inr reply, w1)
                             | Stored \<Rightarrow>
                                 Some (Inr reply,
                                       w1\<lparr>chat_messages :=
                                            chat_messages w1 @ [intervention_row req aiMessage]\<rparr>))))))"

text \<open>The \<open>catch\<close> block: the thrown value is logged and sent with status 500.\<close>

definition performance_intervention ::
  "(json \<Rightarrow> string) \<Rightarrow> environment \<Rightarrow> intervention_request \<Rightarrow> effects
     \<Rightarrow> (response \<times> effects) option" where
  "performance_intervention ts env req w =
     (case intervention_try ts env req w of
        None \<Rightarrow> None
      | Some (Inr resp, w1) \<Rightarrow> Some (resp, w1)
      | Some (Inl e, w1) \<Rightarrow>
          Some (\<lparr>status = 500, body = InterventionFailed e\<rparr>,
                log LogError ''Error in performance-intervention:'' w1))"

text \<open>The whole handler: a preflight \<open>OPTIONS\<close> request is answered before anything is read.\<close>

definition serve_performance_intervention ::
  "(json \<Rightarrow> string) \<Rightarrow> environment \<Rightarrow> string \<Rightarrow> intervention_request \<Rightarrow> effects
     \<Rightarrow> (response \<times> effects) option" where
  "serve_performance_intervention ts env method req w =
     (if method = ''OPTIONS'' then Some (\<lparr>status = 200, body = Preflight\<rparr>, w)
      else performance_intervention ts env req w)"

section \<open>The minimal direct-chat function\<close>

text \<open>
  The request body as \<open>req.json()\<close> delivers it: \<open>None\<close> when the body is not JSON, in
  which case the source substitutes the empty object.
\<close>

definition chat_body :: "json option \<Rightarrow> json" where
  "chat_body parsed = (case parsed of None \<Rightarrow> JObj [] | Some b \<Rightarrow> b)"

text \<open>\<open>Array.isArray(body?.messages) ? body.messages : null\<close>.\<close>

definition messages_of :: "json \<Rightarrow> json list option" where
  "messages_of b =
     (case opt_prop (Some b) ''messages'' of
        Some (JArr ms) \<Rightarrow> Some ms
      | _ \<Rightarrow> None)"

text \<open>\<open>body?.student_id ?? null\<close>.\<close>

definition providedStudentId :: "json \<Rightarrow> json" where
  "providedStudentId b =
     (case coalesce (opt_prop (Some b) ''student_id'') (Some JNull) of
        None \<Rightarrow> JNull
      | Some v \<Rightarrow> v)"

definition chat_systemPrompt :: string where
  "chat_systemPrompt =
     ''You are an AI counselor for MindYaMsanzi, a support platform for South African township students. ''
     @ nl
     @ ''Be empathetic, encouraging, and provide practical advice. Focus on academic support, emotional well-being, and connecting students to resources.''"

definition chat_ai_request :: "environment \<Rightarrow> json list \<Rightarrow> ai_request" where
  "chat_ai_request env messages =
     \<lparr>endpoint = ''https://api.openrouter.ai/v1/chat/completions'',
      bearer = OPENROUTER_API_KEY env,
      model = ''tngtech/deepseek-r1t2-chimera:free'',
      system_prompt = chat_systemPrompt,
      turns = messages,
      max_tokens = Some 500,
      temperature = Some (7 / 10),
      stream = None\<rparr>"

definition timeoutMs :: nat where
  "timeoutMs = 15000"

text \<open>
  \<open>setTimeout(() => controller.abort(), ms)\<close> followed by \<open>await fetch(url, {signal})\<close>.
  The call is open while it is awaited. If the upstream answers or breaks before the
  timer is due, the call settles then and the timer stays armed. Otherwise the timer
  fires after \<open>ms\<close> milliseconds, \<open>abort()\<close> cancels the call, and the \<open>fetch\<close> rejects
  with an \<open>AbortError\<close>. The flag says whether the timer has fired. An answer that is
  due at the very millisecond of the timer is taken to lose against it.
\<close>

definition timer_fires :: "nat \<Rightarrow> effects \<Rightarrow> settled \<times> bool \<times> effects" where
  "timer_fires ms w =
     (Rejected AbortError, True,
      w\<lparr>waited_ms := waited_ms w + ms, armed_timers := armed_timers w - 1,
        open_calls := open_calls w - 1\<rparr>)"

fun fetch_abortable :: "nat \<Rightarrow> upstream \<Rightarrow> effects \<Rightarrow> settled \<times> bool \<times> effects" where
  "fetch_abortable ms (Answers t r) w =
     (if t < ms
      then (Resolved r, False, w\<lparr>waited_ms := waited_ms w + t, open_calls := open_calls w - 1\<rparr>)
      else timer_fires ms w)"
| "fetch_abortable ms (Breaks t) w =
     (if t < ms
      then (Rejected NetworkFailure, False,
            w\<lparr>waited_ms := waited_ms w + t, open_calls := open_calls w - 1\<rparr>)
      else timer_fires ms w)"
| "fetch_abortable ms Silent w = timer_fires ms w"

text \<open>\<open>clearTimeout(timeout)\<close>: disarms the timer unless it has fired already.\<close>

definition clearTimeout :: "bool \<Rightarrow> effects \<Rightarrow> effects" where
  "clearTimeout fired w = (if fired then w else w\<lparr>armed_timers := armed_timers w - 1\<rparr>)"

text \<open>
  \<open>data?.choices?.[0]?.message?.content ?? data?.message ?? JSON.stringify(data).slice(0,2000)\<close>,
  where \<open>data\<close> is \<open>null\<close> when the body is not JSON. \<open>JSON.stringify\<close> is the runtime's,
  taken as the parameter \<open>stringify\<close>; \<open>slice(0,2000)\<close> keeps the first 2000 characters.
\<close>

definition chat_data :: "http_response \<Rightarrow> json" where
  "chat_data r = (case resp_json r of None \<Rightarrow> JNull | Some d \<Rightarrow> d)"

definition aiMessage_of :: "(json \<Rightarrow> string) \<Rightarrow> json \<Rightarrow> jsval" where
  "aiMessage_of stringify data =
     coalesce
       (opt_prop (opt_prop (opt_index0 (opt_prop (Some data) ''choices'')) ''message'') ''content'')
       (coalesce (opt_prop (Some data) ''message'')
          (Some (JStr (take 2000 (stringify data)))))"

definition chat_chatId :: "(json \<Rightarrow> string) \<Rightarrow> environment \<Rightarrow> json \<Rightarrow> string" where
  "chat_chatId ts env sid =
     ''chat_'' @ template ts (Some (JNum (of_nat (date_now env)))) @ ''_''
       @ template ts (coalesce (Some sid) (Some (JStr ''anon'')))"

text \<open>
  \<open>messages[messages.length - 1].content\<close>: on the empty array the element is
  \<open>undefined\<close> and reading its \<open>content\<close> throws.
\<close>

definition last_content :: "json list \<Rightarrow> js_error + jsval" where
  "last_content messages =
     (if messages = [] then strict_prop None ''content''
      else strict_prop (Some (last messages)) ''content'')"

definition chat_rows :: "json \<Rightarrow> jsval \<Rightarrow> jsval \<Rightarrow> chat_message list" where
  "chat_rows sid user_content aiMessage =
     [\<lparr>cm_student_id = sid, cm_role = ''user'', cm_content = user_content, cm_metadata = None\<rparr>,
      \<lparr>cm_student_id = sid, cm_role = ''assistant'', cm_content = aiMessage, cm_metadata = None\<rparr>]"

text \<open>
  The inner \<open>try\<close>/\<open>catch\<close> around the insert: building the rows may throw, the insert
  may reject; both are caught and logged. A refused insert resolves, so nothing is
  caught.
\<close>

definition chat_persist :: "environment \<Rightarrow> json \<Rightarrow> json list \<Rightarrow> jsval \<Rightarrow> effects \<Rightarrow> effects" where
  "chat_persist env sid messages aiMessage w =
     (case last_content messages of
        Inl e \<Rightarrow> log LogError ''Failed to insert chat messages:'' w
      | Inr user_content \<Rightarrow>
          (case insert_does env of
             Raised e \<Rightarrow> log LogError ''Failed to insert chat messages:'' w
           | Refused \<Rightarrow> w
           | Stored \<Rightarrow> w\<lparr>chat_messages := chat_messages w @ chat_rows sid user_content aiMessage\<rparr>))"

definition supabase_configured :: "environment \<Rightarrow> bool" where
  "supabase_configured env =
     (env_or_empty (SUPABASE_URL env) \<noteq> [] \<and> env_or_empty (SUPABASE_SERVICE_ROLE_KEY env) \<noteq> [])"

text \<open>What follows a response of the upstream that has arrived.\<close>

definition chat_after_fetch ::
  "(json \<Rightarrow> string) \<Rightarrow> (json \<Rightarrow> string) \<Rightarrow> environment \<Rightarrow> json \<Rightarrow> json list
     \<Rightarrow> http_response \<Rightarrow> effects \<Rightarrow> response \<times> effects" where
  "chat_after_fetch ts stringify env sid messages r w =
     (if \<not> ok r
      then (\<lparr>status = 502,
             body = ChatError (''AI provider error '' @ template ts (Some (JNum (of_nat (resp_status r)))))\<rparr>,
            log LogError ''OpenRouter API error'' w)
      else
        (let aiMessage = aiMessage_of stringify (chat_data r);
             chatId = chat_chatId ts env sid;
             w1 = (if supabase_configured env then chat_persist env sid messages aiMessage w
                   else log LogInfo ''Skipping DB insert because Supabase env vars are not configured'' w)
         in (\<lparr>status = 200, body = ChatReply aiMessage chatId\<rparr>, w1)))"

text \<open>
  The outer \<open>try\<close> block. Every path returns a response, except a missing API key,
  which is thrown to the outer \<open>catch\<close>.
\<close>

definition chat_try ::
  "(json \<Rightarrow> string) \<Rightarrow> (json \<Rightarrow> string) \<Rightarrow> environment \<Rightarrow> json option \<Rightarrow> effects
     \<Rightarrow> (js_error + response) \<times> effects" where
  "chat_try ts stringify env parsed w =
     (let b = chat_body parsed; sid = providedStudentId b
      in case messages_of b of
           None \<Rightarrow> (Inr \<lparr>status = 400, body = ChatError ''Missing messages array in body''\<rparr>, w)
         | Some messages \<Rightarrow>
             (let w1 = (if supabase_configured env then w
                        else log LogWarn ''Supabase env vars not set; DB inserts will be skipped.'' w)
              in if env_or_empty (OPENROUTER_API_KEY env) = []
                 then (Inl (Error ''Missing OpenRouter API key''), w1)
                 else
                   (case fetch_abortable timeoutMs (upstream_does env)
                           (w1\<lparr>armed_timers := armed_timers w1 + 1,
                               ai_calls := ai_calls w1 @ [chat_ai_request env messages],
                               open_calls := open_calls w1 + 1\<rparr>) of
                      (Rejected fetchErr, fired, w2) \<Rightarrow>
                        (if fetchErr = AbortError
                         then (Inr \<lparr>status = 504, body = ChatError ''AI provider timeout''\<rparr>,
                               log LogError ''OpenRouter request timed out after''
                                 (clearTimeout fired w2))
                         else (Inr \<lparr>status = 502, body = ChatError ''AI provider fetch failed''\<rparr>,
                               log LogError ''OpenRouter fetch failed'' (clearTimeout fired w2)))
                    | (Resolved r, fired, w2) \<Rightarrow>
                        (case chat_after_fetch ts stringify env sid messages r (clearTimeout fired w2) of
                           (resp, w3) \<Rightarrow> (Inr resp, w3)))))"

definition ai_chat ::
  "(json \<Rightarrow> string) \<Rightarrow> (json \<Rightarrow> string) \<Rightarrow> environment \<Rightarrow> json option \<Rightarrow> effects
     \<Rightarrow> response \<times> effects" where
  "ai_chat ts stringify env parsed w =
     (case chat_try ts stringify env parsed w of
        (Inr resp, w1) \<Rightarrow> (resp, w1)
      | (Inl e, w1) \<Rightarrow>
          (\<lparr>status = 500, body = ChatFailed e\<rparr>, log LogError ''Error in ai-chat function:'' w1))"

definition serve_ai_chat ::
  "(json \<Rightarrow> string) \<Rightarrow> (json \<Rightarrow> string) \<Rightarrow> environment \<Rightarrow> string \<Rightarrow> json option \<Rightarrow> effects
     \<Rightarrow> response \<times> effects" where
  "serve_ai_chat ts stringify env method parsed w =
     (if method = ''OPTIONS'' then (\<lparr>status = 200, body = Preflight\<rparr>, w)
      else ai_chat ts stringify env parsed w)"

section \<open>The authenticated direct-chat function\<close>

text \<open>\<open>s.replace(pat, rep)\<close> with a string pattern: the first occurrence only.\<close>

fun replace_first :: "string \<Rightarrow> string \<Rightarrow> string \<Rightarrow> string" where
  "replace_first pat rep [] = (if pat = [] then rep else [])"
| "replace_first pat rep (c # cs) =
     (if take (length pat) (c # cs) = pat then rep @ drop (length pat) (c # cs)
      else c # replace_first pat rep cs)"

text \<open>
  \<open>const { messages } = await req.json()\<close>: a body that is not JSON throws, and so does
  destructuring \<open>null\<close>.
\<close>

definition destructure_messages :: "json option \<Rightarrow> js_error + jsval" where
  "destructure_messages parsed =
     (case parsed of
        None \<Rightarrow> Inl SyntaxError
      | Some b \<Rightarrow> strict_prop (Some b) ''messages'')"

text \<open>
  \<open>createClient(url, key)\<close> of the data-store client library refuses an absent or empty
  URL and an absent or empty key by throwing; the source passes both unchecked.
\<close>

definition createClient :: "environment \<Rightarrow> js_error + unit" where
  "createClient env =
     (if env_or_empty (SUPABASE_URL env) = [] then Inl (Error ''supabaseUrl is required.'')
      else if env_or_empty (SUPABASE_SERVICE_ROLE_KEY env) = [] then Inl (Error ''supabaseKey is required.'')
      else Inr ())"

definition performance_line :: "(json \<Rightarrow> string) \<Rightarrow> row \<Rightarrow> string" where
  "performance_line ts r =
     ''- '' @ template ts (col r ''subject'') @ '': '' @ template ts (col r ''score'')
       @ ''% (Attendance: '' @ template ts (or_else (col r ''attendance_percentage'') ''N/A'') @ ''%)''"

definition mentor_line :: "(json \<Rightarrow> string) \<Rightarrow> row \<Rightarrow> string" where
  "mentor_line ts m =
     ''- '' @ template ts (col m ''name'') @ '' ('' @ template ts (col m ''expertise'')
       @ '') - '' @ template ts (col m ''location'')"

definition resource_line :: "(json \<Rightarrow> string) \<Rightarrow> row \<Rightarrow> string" where
  "resource_line ts r =
     ''- '' @ template ts (col r ''name'') @ '' ('' @ template ts (col r ''resource_type'')
       @ ''): '' @ template ts (col r ''description'')"

definition profile_block :: "(json \<Rightarrow> string) \<Rightarrow> row option \<Rightarrow> string" where
  "profile_block ts profile =
     nl @ ''Student Profile:'' @ nl
     @ ''- Name: '' @ template ts (opt_col profile ''full_name'') @ nl
     @ ''- Location: '' @ template ts (opt_col profile ''location'') @ '', ''
       @ template ts (opt_col profile ''municipality'') @ nl
     @ ''- Grade: '' @ template ts (opt_col profile ''grade'') @ nl
     @ ''- School: '' @ template ts (opt_col profile ''school_name'') @ nl"

definition recent_performance_section :: "(json \<Rightarrow> string) \<Rightarrow> row list option \<Rightarrow> string" where
  "recent_performance_section ts recentPerformance =
     list_section (performance_line ts) recentPerformance ''No recent records''"

definition mentors_section :: "(json \<Rightarrow> string) \<Rightarrow> row list option \<Rightarrow> string" where
  "mentors_section ts mentors = list_section (mentor_line ts) mentors ''No mentors available''"

definition resources_section :: "(json \<Rightarrow> string) \<Rightarrow> row list option \<Rightarrow> string" where
  "resources_section ts resources =
     list_section (resource_line ts) resources ''No resources available''"

definition studentContext ::
  "(json \<Rightarrow> string) \<Rightarrow> row option \<Rightarrow> row list option \<Rightarrow> row list option \<Rightarrow> row list option
     \<Rightarrow> string" where
  "studentContext ts profile recentPerformance mentors resources =
     profile_block ts profile
     @ nl
     @ ''Recent Performance:'' @ nl
     @ recent_performance_section ts recentPerformance @ nl
     @ nl
     @ ''Available Local Mentors:'' @ nl
     @ mentors_section ts mentors @ nl
     @ nl
     @ ''Support Resources:'' @ nl
     @ resources_section ts resources @ nl"

definition auth_systemPrompt :: "string \<Rightarrow> string" where
  "auth_systemPrompt context =
     ''You are an AI counselor for MindYaMsanzi, a support platform for township students in Mpumalanga, South Africa. Your role is to:''
     @ nl
     @ nl
     @ ''1. Listen to students'' @ apostrophe @ '' concerns with empathy and cultural awareness'' @ nl
     @ ''2. Analyze performance patterns and identify early warning signs'' @ nl
     @ ''3. Connect students to relevant local support (mentors, tutoring, counseling)'' @ nl
     @ ''4. Provide practical, context-aware guidance that respects kasi reality'' @ nl
     @ ''5. Be encouraging but honest about challenges'' @ nl
     @ nl
     @ ''Current Student Context:'' @ nl
     @ context @ nl
     @ nl
     @ ''Key Guidelines:'' @ nl
     @ ''- Use language that resonates with township youth (respectful but relatable)'' @ nl
     @ ''- Reference specific local resources when recommending help'' @ nl
     @ ''- If you notice performance drops, ask about home situation, safety, mental health'' @ nl
     @ ''- Suggest specific mentors by name when relevant'' @ nl
     @ ''- Be hopeful but practical about solutions'' @ nl
     @ ''- Never be generic - use the student'' @ apostrophe @ ''s actual data and location'' @ nl
     @ nl
     @ ''Respond conversationally and supportively.''"

text \<open>\<open>[...messages]\<close>: arrays and strings are iterable, anything else throws.\<close>

fun spread :: "jsval \<Rightarrow> js_error + json list" where
  "spread (Some (JArr xs)) = Inr xs"
| "spread (Some (JStr s)) = Inr (map (\<lambda>c. JStr [c]) s)"
| "spread v = Inl TypeError"

text \<open>
  \<open>messages[messages.length - 1].content\<close> where \<open>messages\<close> is whatever the body
  carried: the last element of an array, the last character of a string (which has no
  \<open>content\<close>), \<open>undefined\<close> when either is empty.
\<close>

fun last_content_of :: "jsval \<Rightarrow> js_error + jsval" where
  "last_content_of (Some (JArr xs)) = last_content xs"
| "last_content_of (Some (JStr s)) = (if s = [] then Inl TypeError else Inr None)"
| "last_content_of v = Inl TypeError"

definition auth_ai_request :: "(json \<Rightarrow> string) \<Rightarrow> environment \<Rightarrow> json list \<Rightarrow> ai_request" where
  "auth_ai_request ts env messages =
     \<lparr>endpoint = ''https://ai.gateway.lovable.dev/v1/chat/completions'',
      bearer = LOVABLE_API_KEY env,
      model = ''google/gemini-2.5-flash'',
      system_prompt =
        auth_systemPrompt
          (studentContext ts (profile_row env) (performance_rows env) (mentor_rows env)
             (resource_rows env)),
      turns = messages,
      max_tokens = None,
      temperature = None,
      stream = Some False\<rparr>"

definition auth_rows :: "string \<Rightarrow> jsval \<Rightarrow> jsval \<Rightarrow> chat_message list" where
  "auth_rows uid user_content assistantMessage =
     [\<lparr>cm_student_id = JStr uid, cm_role = ''user'', cm_content = user_content, cm_metadata = None\<rparr>,
      \<lparr>cm_student_id = JStr uid, cm_role = ''assistant'', cm_content = assistantMessage,
       cm_metadata = None\<rparr>]"

text \<open>What follows a response of the upstream that has arrived; nothing here is guarded.\<close>

definition auth_after_fetch ::
  "(json \<Rightarrow> string) \<Rightarrow> environment \<Rightarrow> string \<Rightarrow> jsval \<Rightarrow> http_response \<Rightarrow> effects
     \<Rightarrow> (js_error + response) \<times> effects" where
  "auth_after_fetch ts env uid messages r w =
     (if \<not> ok r
      then (Inl (Error (''AI API error: '' @ template ts (Some (JNum (of_nat (resp_status r)))))),
            log LogError ''AI API error:'' w)
      else
        (case resp_json r of
           None \<Rightarrow> (Inl SyntaxError, w)
         | Some data \<Rightarrow>
             (case content_unguarded data of
                Inl e \<Rightarrow> (Inl e, w)
              | Inr assistantMessage \<Rightarrow>
                  (case last_content_of messages of
                     Inl e \<Rightarrow> (Inl e, w)
                   | Inr user_content \<Rightarrow>
                       (let reply = \<lparr>status = 200, body = AuthReply assistantMessage\<rparr>
                        in case insert_does env of
                             Raised e \<Rightarrow> (Inl e, w)
                           | Refused \<Rightarrow> (Inr reply, w)
                           | Stored \<Rightarrow>
                               (Inr reply,
                                w\<lparr>chat_messages :=
                                    chat_messages w @ auth_rows uid user_content assistantMessage\<rparr>))))))"

text \<open>
  The \<open>try\<close> block. The outbound call has no time limit: on a silent upstream the
  handler never returns (\<open>None\<close>).
\<close>

definition auth_try ::
  "(json \<Rightarrow> string) \<Rightarrow> environment \<Rightarrow> string option \<Rightarrow> json option \<Rightarrow> effects
     \<Rightarrow> ((js_error + response) \<times> effects) option" where
  "auth_try ts env authHeader parsed w =
     (case destructure_messages parsed of
        Inl e \<Rightarrow> Some (Inl e, w)
      | Inr messages \<Rightarrow>
          (case authHeader of
             None \<Rightarrow> Some (Inl (Error ''No authorization header''), w)
           | Some h \<Rightarrow>
               if h = [] then Some (Inl (Error ''No authorization header''), w)
               else
                 (case createClient env of
                    Inl e \<Rightarrow> Some (Inl e, w)
                  | Inr _ \<Rightarrow>
                      (case auth_user env (replace_first ''Bearer '' [] h) of
                         None \<Rightarrow> Some (Inl (Error ''Unauthorized''), w)
                       | Some uid \<Rightarrow>
                           (case spread messages of
                              Inl e \<Rightarrow> Some (Inl e, w)
                            | Inr spread_messages \<Rightarrow>
                                (case fetch_plain (upstream_does env)
                                        (w\<lparr>ai_calls := ai_calls w @ [auth_ai_request ts env spread_messages]\<rparr>) of
                                   None \<Rightarrow> None
                                 | Some (Rejected e, w1) \<Rightarrow> Some (Inl e, w1)
                                 | Some (Resolved r, w1) \<Rightarrow>
                                     Some (auth_after_fetch ts env uid messages r w1)))))))"

definition ai_chat_authenticated ::
  "(json \<Rightarrow> string) \<Rightarrow> environment \<Rightarrow> string option \<Rightarrow> json option \<Rightarrow> effects
     \<Rightarrow> (response \<times> effects) option" where
  "ai_chat_authenticated ts env authHeader parsed w =
     (case auth_try ts env authHeader parsed w of
        None \<Rightarrow> None
      | Some (Inr resp, w1) \<Rightarrow> Some (resp, w1)
      | Some (Inl e, w1) \<Rightarrow>
          Some (\<lparr>status = 500, body = AuthFailed e\<rparr>, log LogError ''Error in ai-chat function:'' w1))"

definition serve_ai_chat_authenticated ::
  "(json \<Rightarrow> string) \<Rightarrow> environment \<Rightarrow> string \<Rightarrow> string option \<Rightarrow> json option \<Rightarrow> effects
     \<Rightarrow> (response \<times> effects) option" where
  "serve_ai_chat_authenticated ts env method authHeader parsed w =
     (if method = ''OPTIONS'' then Some (\<lparr>status = 200, body = Preflight\<rparr>, w)
      else ai_chat_authenticated ts env authHeader parsed w)"

section \<open>Sample inputs\<close>

text \<open>
  A concrete runtime and a concrete deployment, for evaluating the handlers. The sample
  \<open>ToString\<close> prints natural numbers in decimal; the sample \<open>JSON.stringify\<close> only tells
  \<open>null\<close> from the rest.
\<close>

fun decimal :: "nat \<Rightarrow> string" where
  "decimal n =
     (if n < 10 then [''0123456789'' ! n]
      else decimal (n div 10) @ [''0123456789'' ! (n mod 10)])"

declare decimal.simps [simp del]

fun sample_text :: "json \<Rightarrow> string" where
  "sample_text (JNum q) =
     (if 0 \<le> q \<and> q = of_int \<lfloor>q\<rfloor> then decimal (nat \<lfloor>q\<rfloor>) else ''<number>'')"
| "sample_text v = ''<value>''"

fun sample_stringify :: "json \<Rightarrow> string" where
  "sample_stringify JNull = ''null''"
| "sample_stringify v = ''{}''"

definition idle :: effects where
  "idle = \<lparr>chat_messages = [], ai_calls = [], console = [], waited_ms = 0, armed_timers = 0,
           open_calls = 0\<rparr>"

definition completion :: "string \<Rightarrow> json" where
  "completion reply =
     JObj [(''choices'', JArr [JObj [(''message'', JObj [(''role'', JStr ''assistant''),
                                                         (''content'', JStr reply)])]])]"

definition sample_user :: "string \<Rightarrow> string option" where
  "sample_user token = (if token = ''tok'' then Some ''u1'' else None)"

definition deployed :: environment where
  "deployed =
     \<lparr>SUPABASE_URL = Some ''https://db.example'',
      SUPABASE_SERVICE_ROLE_KEY = Some ''service-key'',
      OPENROUTER_API_KEY = Some ''or-key'',
      LOVABLE_API_KEY = Some ''lv-key'',
      date_now = 1700000000000,
      upstream_does = Answers 800 \<lparr>resp_status = 200, resp_json = Some (completion ''Hello'')\<rparr>,
      insert_does = Stored,
      profile_row = None,
      performance_rows = Some [],
      mentor_rows = Some [],
      resource_rows = Some [],
      auth_user = sample_user\<rparr>"

definition steady :: intervention_request where
  "steady = \<lparr>req_student_id = ''s1'', req_subject = ''Maths'', req_new_grade = 78,
             req_previous_grade = Some 80\<rparr>"

definition first_low :: intervention_request where
  "first_low = \<lparr>req_student_id = ''s1'', req_subject = ''Maths'', req_new_grade = 45,
                req_previous_grade = None\<rparr>"

definition one_turn :: json where
  "one_turn = JObj [(''messages'', JArr [JObj [(''role'', JStr ''user''), (''content'', JStr ''Hi'')]]),
                    (''student_id'', JStr ''s1'')]"

definition no_turns :: json where
  "no_turns = JObj [(''messages'', JArr [])]"

section \<open>Properties of the number model\<close>

text \<open>
  Rounding is monotone and leaves a binary64 value as it is; the integers up to
  \<open>2 ^ 53\<close> and their quotients by powers of two up to \<open>2 ^ 1074\<close> are binary64 values.
\<close>

lemma rhe_bounds: "of_int (round_half_even y) \<le> y + 1 / 2" "y - 1 / 2 \<le> of_int (round_half_even y)"
  unfolding round_half_even_def Let_def by (auto; linarith)+

lemma rhe_floor: "\<lfloor>y\<rfloor> \<le> round_half_even y" "round_half_even y \<le> \<lfloor>y\<rfloor> + 1"
  unfolding round_half_even_def Let_def by auto

lemma rhe_int [simp]: "round_half_even (of_int n) = n"
  unfolding round_half_even_def Let_def by simp

lemma rhe_zero [simp]: "round_half_even 0 = 0"
  unfolding round_half_even_def Let_def by simp

lemma rhe_mono: assumes "x \<le> y" shows "round_half_even x \<le> round_half_even y"
proof (cases "\<lfloor>x\<rfloor> < \<lfloor>y\<rfloor>")
  case True
  then have "round_half_even x \<le> \<lfloor>y\<rfloor>" using rhe_floor(2) [of x] by linarith
  then show ?thesis using rhe_floor(1) [of y] by linarith
next
  case False
  with assms have eq: "\<lfloor>x\<rfloor> = \<lfloor>y\<rfloor>" using floor_mono [of x y] by linarith
  with assms show ?thesis
    unfolding round_half_even_def Let_def by auto
qed


lemma round_scaled_small: "y < 2 ^ 53 \<Longrightarrow> round_scaled y = of_int (round_half_even y)"
  by (simp add: round_scaled.simps)

lemma round_scaled_large: "\<not> y < 2 ^ 53 \<Longrightarrow> round_scaled y = 2 * round_scaled (y / 2)"
  by (subst round_scaled.simps) simp

lemma round_scaled_nonneg: "0 \<le> y \<Longrightarrow> 0 \<le> round_scaled y"
proof (induction y rule: round_scaled.induct)
  case (1 y)
  show ?case
  proof (cases "y < 2 ^ 53")
    case True
    from 1(2) have "0 \<le> round_half_even y" using rhe_mono [of 0 y] by simp
    with True show ?thesis by (simp add: round_scaled_small)
  next
    case False
    with 1 show ?thesis by (simp add: round_scaled_large)
  qed
qed

lemma round_scaled_lower: "2 ^ 52 \<le> y \<Longrightarrow> 2 ^ 52 \<le> round_scaled y"
proof (induction y rule: round_scaled.induct)
  case (1 y)
  show ?case
  proof (cases "y < 2 ^ 53")
    case True
    from 1(2) have "round_half_even (of_int (2 ^ 52)) \<le> round_half_even y"
      by (intro rhe_mono) simp
    then have "(2::int) ^ 52 \<le> round_half_even y" by (simp only: rhe_int)
    then have "(of_int (2 ^ 52) :: rat) \<le> of_int (round_half_even y)" by (simp only: of_int_le_iff)
    then have "(2::rat) ^ 52 \<le> of_int (round_half_even y)" by simp
    with True show ?thesis by (simp only: round_scaled_small)
  next
    case False
    then have h: "2 ^ 52 \<le> y / 2" by simp
    from 1(1) [OF False h] False show ?thesis by (simp add: round_scaled_large)
  qed
qed

lemma round_scaled_upper: "y < 2 ^ 53 \<Longrightarrow> round_scaled y \<le> 2 ^ 53"
proof -
  assume a: "y < 2 ^ 53"
  then have "round_half_even y \<le> round_half_even (of_int (2 ^ 53))"
    by (intro rhe_mono) simp
  then have "round_half_even y \<le> 2 ^ 53" by (simp only: rhe_int)
  then have "(of_int (round_half_even y) :: rat) \<le> of_int (2 ^ 53)" by (simp only: of_int_le_iff)
  then have "(of_int (round_half_even y) :: rat) \<le> 2 ^ 53" by simp
  with a show ?thesis by (simp only: round_scaled_small)
qed

lemma round_scaled_mono: "x \<le> y \<Longrightarrow> round_scaled x \<le> round_scaled y"
proof (induction y arbitrary: x rule: round_scaled.induct)
  case (1 y)
  show ?case
  proof (cases "y < 2 ^ 53")
    case True
    with 1(2) have "x < 2 ^ 53" by simp
    with True 1(2) show ?thesis
      by (simp add: round_scaled_small rhe_mono)
  next
    case False
    show ?thesis
    proof (cases "x < 2 ^ 53")
      case True
      have "round_scaled x \<le> 2 ^ 53" using True by (rule round_scaled_upper)
      moreover from False have "2 ^ 52 \<le> y / 2" by simp
      then have "2 ^ 52 \<le> round_scaled (y / 2)" by (rule round_scaled_lower)
      with False have "2 ^ 53 \<le> round_scaled y" by (simp add: round_scaled_large)
      ultimately show ?thesis by linarith
    next
      case xl: False
      from 1(2) have "x / 2 \<le> y / 2" by simp
      from 1(1) [OF False this] False xl show ?thesis
        by (simp add: round_scaled_large)
    qed
  qed
qed

lemma round_scaled_idem: "round_scaled (round_scaled y) = round_scaled y"
proof (induction y rule: round_scaled.induct)
  case (1 y)
  show ?case
  proof (cases "y < 2 ^ 53")
    case True
    then have r: "round_scaled y = of_int (round_half_even y)" by (rule round_scaled_small)
    show ?thesis
    proof (cases "round_scaled y < 2 ^ 53")
      case True
      then show ?thesis unfolding r by (simp add: round_scaled_small)
    next
      case False
      with round_scaled_upper [OF True] have e: "round_scaled y = 2 ^ 53" by linarith
      have "round_scaled (2 ^ 53) = 2 * round_scaled (2 ^ 52)"
        by (subst round_scaled_large) simp_all
      also have "round_scaled (2 ^ 52) = of_int (round_half_even (of_int (2 ^ 52)))"
        by (subst round_scaled_small) simp_all
      finally show ?thesis unfolding e by (simp only: rhe_int) simp
    qed
  next
    case False
    then have "2 ^ 52 \<le> y / 2" by simp
    then have l: "2 ^ 52 \<le> round_scaled (y / 2)" by (rule round_scaled_lower)
    from False have r: "round_scaled y = 2 * round_scaled (y / 2)" by (rule round_scaled_large)
    from l have "\<not> 2 * round_scaled (y / 2) < 2 ^ 53" by simp
    then have "round_scaled (2 * round_scaled (y / 2)) = 2 * round_scaled (2 * round_scaled (y / 2) / 2)"
      by (rule round_scaled_large)
    with 1 [OF False] show ?thesis unfolding r by simp
  qed
qed


lemma round_scaled_exact:
  "0 \<le> m \<Longrightarrow> m \<le> 2 ^ 53 \<Longrightarrow> round_scaled (of_int m * 2 ^ k) = of_int m * 2 ^ k"
proof (induction k)
  case 0
  show ?case
  proof (cases "m = 2 ^ 53")
    case True
    have "round_scaled (2 ^ 53) = 2 * round_scaled (2 ^ 52)"
      by (subst round_scaled_large) simp_all
    also have "round_scaled (2 ^ 52) = of_int (round_half_even (of_int (2 ^ 52)))"
      by (subst round_scaled_small) simp_all
    finally have "round_scaled (2 ^ 53) = 2 ^ 53" by (simp only: rhe_int) simp
    with True show ?thesis by simp
  next
    case False
    with 0 have "m < 2 ^ 53" by simp
    then have "(of_int m :: rat) < of_int (2 ^ 53)" by (simp only: of_int_less_iff)
    then have "(of_int m :: rat) < 2 ^ 53" by simp
    then show ?thesis by (simp add: round_scaled_small)
  qed
next
  case (Suc k)
  show ?case
  proof (cases "of_int m * 2 ^ Suc k < (2::rat) ^ 53")
    case True
    have "of_int m * (2::rat) ^ Suc k = of_int (m * 2 ^ Suc k)" by simp
    with True show ?thesis by (simp only: round_scaled_small rhe_int)
  next
    case False
    then have "round_scaled (of_int m * 2 ^ Suc k) = 2 * round_scaled (of_int m * 2 ^ Suc k / 2)"
      by (rule round_scaled_large)
    with Suc show ?thesis by simp
  qed
qed

lemma round_scaled_scale:
  "2 ^ 52 \<le> y \<Longrightarrow> y < 2 ^ 53 \<Longrightarrow> round_scaled (y * 2 ^ k) = of_int (round_half_even y) * 2 ^ k"
proof (induction k)
  case 0
  then show ?case by (simp add: round_scaled_small)
next
  case (Suc k)
  have "(1::rat) \<le> 2 ^ k" by (rule one_le_power) simp
  then have "(2::rat) \<le> 2 ^ Suc k" by simp
  with Suc(2) have "2 ^ 52 * 2 \<le> y * 2 ^ Suc k"
    by (intro mult_mono) simp_all
  then have "\<not> y * 2 ^ Suc k < 2 ^ 53" by simp
  then have "round_scaled (y * 2 ^ Suc k) = 2 * round_scaled (y * 2 ^ Suc k / 2)"
    by (rule round_scaled_large)
  with Suc show ?case by simp
qed

lemma scale64_pos: "0 < scale64"
  unfolding scale64_def by (rule zero_less_power) simp

lemma infinity64_scaled: "round_scaled (infinity64 * scale64) = infinity64 * scale64"
proof -
  have "infinity64 * scale64 = of_int 1 * 2 ^ 2098"
    unfolding infinity64_def scale64_def by (simp only: power_add [symmetric]) simp
  moreover have "round_scaled (of_int 1 * 2 ^ 2098) = of_int 1 * 2 ^ 2098"
    by (rule round_scaled_exact) simp_all
  ultimately show ?thesis by (simp only:)
qed

lemma magnitude64_nonneg: assumes "0 \<le> a" shows "0 \<le> magnitude64 a"
proof -
  from assms scale64_pos have "0 \<le> a * scale64" by simp
  then have "0 \<le> round_scaled (a * scale64)" by (rule round_scaled_nonneg)
  with scale64_pos have "0 \<le> round_scaled (a * scale64) / scale64" by simp
  moreover have "0 \<le> infinity64" unfolding infinity64_def by (rule zero_le_power) simp
  ultimately show ?thesis unfolding magnitude64_def by simp
qed

lemma magnitude64_mono: assumes "a \<le> b" shows "magnitude64 a \<le> magnitude64 b"
proof -
  from assms scale64_pos have "a * scale64 \<le> b * scale64" by simp
  then have "round_scaled (a * scale64) \<le> round_scaled (b * scale64)"
    by (rule round_scaled_mono)
  with scale64_pos
  have "round_scaled (a * scale64) / scale64 \<le> round_scaled (b * scale64) / scale64"
    by (simp add: divide_right_mono)
  then show ?thesis unfolding magnitude64_def by (rule min.mono [OF order_refl])
qed

lemma magnitude64_idem: "magnitude64 (magnitude64 a) = magnitude64 a"
proof (cases "round_scaled (a * scale64) / scale64 \<le> infinity64")
  case True
  then have m: "magnitude64 a = round_scaled (a * scale64) / scale64"
    unfolding magnitude64_def by (simp only: min_absorb2)
  from scale64_pos have "magnitude64 a * scale64 = round_scaled (a * scale64)"
    unfolding m by simp
  then have "round_scaled (magnitude64 a * scale64) = round_scaled (a * scale64)"
    by (simp only: round_scaled_idem)
  then have "magnitude64 (magnitude64 a) = min infinity64 (round_scaled (a * scale64) / scale64)"
    by (simp only: magnitude64_def [of "magnitude64 a"])
  then show ?thesis by (simp only: magnitude64_def [of a])
next
  case False
  then have m: "magnitude64 a = infinity64"
    unfolding magnitude64_def by (simp only: min_def) simp
  from scale64_pos have "round_scaled (infinity64 * scale64) / scale64 = infinity64"
    by (simp only: infinity64_scaled) simp
  then have "magnitude64 infinity64 = infinity64"
    unfolding magnitude64_def by (simp only: min.idem)
  with m show ?thesis by (simp only:)
qed

lemma magnitude64_zero [simp]: "magnitude64 0 = 0"
proof -
  have "0 \<le> infinity64" unfolding infinity64_def by (rule zero_le_power) simp
  then show ?thesis unfolding magnitude64_def by (simp add: round_scaled_small)
qed

lemma binary64_nonneg: "0 \<le> x \<Longrightarrow> 0 \<le> binary64 x"
  using magnitude64_nonneg [of "\<bar>x\<bar>"] by (simp add: binary64_def)

lemma binary64_neg: "x < 0 \<Longrightarrow> binary64 x \<le> 0"
  using magnitude64_nonneg [of "\<bar>x\<bar>"] by (simp add: binary64_def)

lemma binary64_mono: assumes "x \<le> y" shows "binary64 x \<le> binary64 y"
proof -
  consider "x < 0" "0 \<le> y" | "0 \<le> x" | "y < 0" using assms by linarith
  then show ?thesis
  proof cases
    case 1
    then show ?thesis using binary64_neg [of x] binary64_nonneg [of y] by linarith
  next
    case 2
    with assms have "magnitude64 \<bar>x\<bar> \<le> magnitude64 \<bar>y\<bar>" by (intro magnitude64_mono) simp
    with 2 assms show ?thesis by (simp add: binary64_def)
  next
    case 3
    with assms have "magnitude64 \<bar>y\<bar> \<le> magnitude64 \<bar>x\<bar>" by (intro magnitude64_mono) simp
    with 3 assms show ?thesis by (simp add: binary64_def)
  qed
qed

lemma binary64_idem: "binary64 (binary64 x) = binary64 x"
proof -
  define m where "m = magnitude64 \<bar>x\<bar>"
  have n: "0 \<le> m" unfolding m_def by (rule magnitude64_nonneg) simp
  have i: "magnitude64 m = m" unfolding m_def by (rule magnitude64_idem)
  show ?thesis
  proof (cases "x < 0 \<and> m \<noteq> 0")
    case True
    with n have neg: "- m < 0" by simp
    from True have e: "binary64 x = - m" by (simp add: binary64_def m_def)
    from neg n i have "binary64 (- m) = - m" by (simp add: binary64_def)
    with e show ?thesis by simp
  next
    case False
    then have e: "binary64 x = m" by (auto simp add: binary64_def m_def)
    from n i have "binary64 m = m" by (simp add: binary64_def)
    with e show ?thesis by simp
  qed
qed

lemma magnitude64_dyadic:
  assumes "0 \<le> m" "m \<le> 2 ^ 53" "j \<le> 1074"
  shows "magnitude64 (of_int m / 2 ^ j) = of_int m / 2 ^ j"
proof -
  from assms(3) have "j + (1074 - j) = 1074" by simp
  then have s: "scale64 = 2 ^ j * 2 ^ (1074 - j)"
    unfolding scale64_def by (simp only: power_add [symmetric])
  have "of_int m / 2 ^ j * scale64 = of_int m * 2 ^ (1074 - j)"
    unfolding s by simp
  moreover have "round_scaled (of_int m * 2 ^ (1074 - j)) = of_int m * 2 ^ (1074 - j)"
    using assms(1,2) by (rule round_scaled_exact)
  ultimately have "round_scaled (of_int m / 2 ^ j * scale64) = of_int m / 2 ^ j * scale64"
    by (simp only:)
  with scale64_pos have r: "round_scaled (of_int m / 2 ^ j * scale64) / scale64 = of_int m / 2 ^ j"
    by simp
  have "of_int m / (2::rat) ^ j \<le> infinity64"
  proof -
    from assms(2) have "(of_int m :: rat) \<le> of_int (2 ^ 53)" by (simp only: of_int_le_iff)
    then have a: "(of_int m :: rat) \<le> 2 ^ 53" by simp
    have b: "(1::rat) \<le> 2 ^ j" by (rule one_le_power) simp
    from assms(1) have c: "(0::rat) \<le> of_int m" by simp
    from b c have "of_int m / (2::rat) ^ j \<le> of_int m / 1"
      by (intro divide_left_mono) simp_all
    with a have "of_int m / (2::rat) ^ j \<le> 2 ^ 53" by simp
    also have "(2::rat) ^ 53 \<le> 2 ^ 1024" by (rule power_increasing) simp_all
    finally show ?thesis unfolding infinity64_def .
  qed
  then show ?thesis unfolding magnitude64_def r by (simp only: min_absorb2)
qed

lemma binary64_dyadic:
  assumes "\<bar>m\<bar> \<le> 2 ^ 53" "j \<le> 1074"
  shows "binary64 (of_int m / 2 ^ j) = of_int m / 2 ^ j"
proof (cases "m < 0")
  case True
  then have "(of_int m :: rat) / 2 ^ j < 0" by (simp add: divide_neg_pos)
  moreover from True have "\<bar>of_int m / (2::rat) ^ j\<bar> = of_int (- m) / 2 ^ j" by simp
  moreover from True assms have "magnitude64 (of_int (- m) / 2 ^ j) = of_int (- m) / 2 ^ j"
    by (intro magnitude64_dyadic) simp_all
  ultimately show ?thesis by (simp add: binary64_def)
next
  case False
  then have "\<not> (of_int m :: rat) / 2 ^ j < 0" by (simp add: divide_less_0_iff)
  moreover from False have "\<bar>of_int m / (2::rat) ^ j\<bar> = of_int m / 2 ^ j" by simp
  moreover from False assms have "magnitude64 (of_int m / 2 ^ j) = of_int m / 2 ^ j"
    by (intro magnitude64_dyadic) simp_all
  ultimately show ?thesis by (simp add: binary64_def)
qed

lemma binary64_int: "\<bar>m\<bar> \<le> 2 ^ 53 \<Longrightarrow> binary64 (of_int m) = of_int m"
  using binary64_dyadic [of m 0] by simp

lemma binary64_numeral [simp]:
  "numeral k \<le> (2::int) ^ 53 \<Longrightarrow> binary64 (numeral k) = numeral k"
  "numeral k \<le> (2::int) ^ 53 \<Longrightarrow> binary64 (- numeral k) = - numeral k"
  "binary64 0 = 0" "binary64 1 = 1"
  using binary64_int [of "numeral k"] binary64_int [of "- numeral k"] binary64_int [of 0]
    binary64_int [of 1]
  by simp_all

lemma rhe_nearest:
  assumes "of_int n - 1 / 2 < y" "y < of_int n + 1 / 2"
  shows "round_half_even y = n"
proof -
  have f: "of_int \<lfloor>y\<rfloor> \<le> y" "y < of_int \<lfloor>y\<rfloor> + 1" by linarith+
  with assms have "\<lfloor>y\<rfloor> = n \<or> \<lfloor>y\<rfloor> = n - 1" by linarith
  then show ?thesis
  proof
    assume e: "\<lfloor>y\<rfloor> = n"
    with assms show ?thesis unfolding round_half_even_def Let_def by simp
  next
    assume e: "\<lfloor>y\<rfloor> = n - 1"
    with assms have "1 / 2 < y - of_int (n - 1)" by simp
    with e show ?thesis unfolding round_half_even_def Let_def by simp
  qed
qed

lemma rhe_upper: assumes "y < 2 ^ 53" shows "(of_int (round_half_even y) :: rat) \<le> 2 ^ 53"
proof -
  from assms have "round_half_even y \<le> round_half_even (of_int (2 ^ 53))"
    by (intro rhe_mono) simp
  then have "round_half_even y \<le> 2 ^ 53" by (simp only: rhe_int)
  then have "(of_int (round_half_even y) :: rat) \<le> of_int (2 ^ 53)" by (simp only: of_int_le_iff)
  then show ?thesis by simp
qed

lemma magnitude64_normal:
  assumes "2 ^ 52 \<le> a * 2 ^ j" "a * 2 ^ j < 2 ^ 53" "j \<le> 1074"
  shows "magnitude64 a = of_int (round_half_even (a * 2 ^ j)) / 2 ^ j"
proof -
  from assms(3) have "j + (1074 - j) = 1074" by simp
  then have s: "scale64 = 2 ^ j * 2 ^ (1074 - j)"
    unfolding scale64_def by (simp only: power_add [symmetric])
  have "a * scale64 = a * 2 ^ j * 2 ^ (1074 - j)"
    unfolding s by simp
  then have "round_scaled (a * scale64)
               = of_int (round_half_even (a * 2 ^ j)) * 2 ^ (1074 - j)"
    using round_scaled_scale [OF assms(1,2), of "1074 - j"] by (simp only:)
  then have r: "round_scaled (a * scale64) / scale64 = of_int (round_half_even (a * 2 ^ j)) / 2 ^ j"
    unfolding s by simp
  have "0 \<le> a * 2 ^ j" using assms(1) by (rule order_trans [rotated]) simp
  then have "0 \<le> round_half_even (a * 2 ^ j)" using rhe_mono [of 0 "a * 2 ^ j"] by simp
  then have c: "(0::rat) \<le> of_int (round_half_even (a * 2 ^ j))" by simp
  have b: "(1::rat) \<le> 2 ^ j" by (rule one_le_power) simp
  from b c have "of_int (round_half_even (a * 2 ^ j)) / (2::rat) ^ j
                   \<le> of_int (round_half_even (a * 2 ^ j)) / 1"
    by (intro divide_left_mono) simp_all
  with rhe_upper [OF assms(2)]
  have "of_int (round_half_even (a * 2 ^ j)) / (2::rat) ^ j \<le> 2 ^ 53" by simp
  also have "(2::rat) ^ 53 \<le> 2 ^ 1024" by (rule power_increasing) simp_all
  finally have "of_int (round_half_even (a * 2 ^ j)) / (2::rat) ^ j \<le> infinity64"
    unfolding infinity64_def .
  then show ?thesis unfolding magnitude64_def r by (simp only: min_absorb2)
qed

lemma binary64_54_4: "binary64 (272 / 5) = 7656119366529843 / 2 ^ 47"
proof -
  have "magnitude64 (272 / 5) = of_int (round_half_even (272 / 5 * 2 ^ 47)) / 2 ^ 47"
    by (rule magnitude64_normal) simp_all
  moreover have "round_half_even (272 / 5 * 2 ^ 47) = 7656119366529843"
    by (rule rhe_nearest) simp_all
  ultimately show ?thesis by (simp add: binary64_def)
qed

lemma binary64_64_4: "binary64 (322 / 5) = 4531747125041562 / 2 ^ 46"
proof -
  have "magnitude64 (322 / 5) = of_int (round_half_even (322 / 5 * 2 ^ 46)) / 2 ^ 46"
    by (rule magnitude64_normal) simp_all
  moreover have "round_half_even (322 / 5 * 2 ^ 46) = 4531747125041562"
    by (rule rhe_nearest) simp_all
  ultimately show ?thesis by (simp add: binary64_def)
qed

lemma binary64_54_4_drop: "binary64 (272 / 5) < binary64 (binary64 (322 / 5) - 10)"
proof -
  have "binary64 (322 / 5) - 10 = of_int 3828059683264922 / 2 ^ 46"
    unfolding binary64_64_4 by simp
  moreover have "binary64 (of_int 3828059683264922 / 2 ^ 46) = of_int 3828059683264922 / 2 ^ 46"
    by (rule binary64_dyadic) simp_all
  ultimately have "binary64 (binary64 (322 / 5) - 10) = of_int 3828059683264922 / 2 ^ 46"
    by (simp only:)
  then show ?thesis unfolding binary64_54_4 by simp
qed

lemma binary64_just_under_50: "binary64 (4999999999999999999 / 100000000000000000) = 50"
proof -
  have "magnitude64 (4999999999999999999 / 100000000000000000)
          = of_int (round_half_even (4999999999999999999 / 100000000000000000 * 2 ^ 47)) / 2 ^ 47"
    by (rule magnitude64_normal) simp_all
  moreover have "round_half_even (4999999999999999999 / 100000000000000000 * 2 ^ 47) = 50 * 2 ^ 47"
    by (rule rhe_nearest) simp_all
  ultimately show ?thesis by (simp add: binary64_def)
qed

text \<open>The literal 0.1 is read as the binary64 value \<open>0x1.999999999999ap-4\<close>.\<close>

lemma binary64_one_tenth: "binary64 (1 / 10) = 7205759403792794 / 2 ^ 56"
proof -
  have "magnitude64 (1 / 10) = of_int (round_half_even (1 / 10 * 2 ^ 56)) / 2 ^ 56"
    by (rule magnitude64_normal) simp_all
  moreover have "round_half_even (1 / 10 * 2 ^ 56) = 7205759403792794"
    by (rule rhe_nearest) simp_all
  ultimately show ?thesis by (simp add: binary64_def)
qed

text \<open>
  The largest binary64 value below 50 is \<open>50 - 2 ^ -47\<close>: every literal up to it is read
  as a number below 50.
\<close>

lemma binary64_below_50:
  assumes "x \<le> 50 - 1 / 2 ^ 47"
  shows "binary64 x < 50"
proof -
  have "binary64 (of_int 7036874417766399 / 2 ^ 47) = of_int 7036874417766399 / 2 ^ 47"
    by (rule binary64_dyadic) simp_all
  moreover have "(50::rat) - 1 / 2 ^ 47 = of_int 7036874417766399 / 2 ^ 47"
    by simp
  ultimately have "binary64 (50 - 1 / 2 ^ 47) = 50 - 1 / 2 ^ 47"
    by (simp only:)
  with binary64_mono [OF assms] have "binary64 x \<le> 50 - 1 / 2 ^ 47"
    by (simp only:)
  then show ?thesis by simp
qed

section \<open>Properties of the intervention decision\<close>

lemma gradeDropped_iff:
  "gradeDropped n prev
     = (\<exists>p. prev = Some p \<and> binary64 p \<noteq> 0 \<and> binary64 n < binary64 (binary64 p - 10))"
  by (cases prev) (simp_all add: gradeDropped_def has_previous_def)

lemma isFirstAssessment_iff:
  "isFirstAssessment prev = (prev = None \<or> (\<exists>p. prev = Some p \<and> binary64 p = 0))"
  by (cases prev) (simp_all add: isFirstAssessment_def has_previous_def)

text \<open>
  Two literals at which binary64 and decimal arithmetic part: a drop from 64.4 to 54.4
  is a drop of exactly ten points on paper and of more than ten in binary64, and the
  literal 49.99999999999999999 is the number 50.
\<close>

lemma two_decimal_drop_of_ten: "gradeDropped (272 / 5) (Some (322 / 5))"
proof -
  have "binary64 (322 / 5) \<noteq> 0" unfolding binary64_64_4 by simp
  with binary64_54_4_drop show ?thesis by (simp add: gradeDropped_def has_previous_def)
qed

lemma literal_just_under_50_is_not_low:
  "\<not> isLowGrade (4999999999999999999 / 100000000000000000)"
  by (simp add: isLowGrade_def binary64_just_under_50)

section \<open>Properties of the performance-intervention handler\<close>

text \<open>
  A new score at or above 50 that is no more than 10 below the previous one, both read
  as binary64 values, is neither low nor a drop: rounding \<open>previous_grade - 10\<close> cannot
  lift it above a binary64 value that the exact difference does not exceed.
\<close>

lemma satisfactory_iff:
  assumes "50 \<le> binary64 n"
    and "prev = None \<or> (\<exists>p. prev = Some p \<and> binary64 p - 10 \<le> binary64 n)"
  shows "\<not> isLowGrade n \<and> \<not> gradeDropped n prev"
proof -
  from assms(1) have low: "\<not> isLowGrade n" by (simp add: isLowGrade_def)
  have "\<not> gradeDropped n prev"
  proof (cases prev)
    case None
    then show ?thesis by (simp add: gradeDropped_def)
  next
    case (Some p)
    with assms(2) have "binary64 p - 10 \<le> binary64 n" by simp
    then have "binary64 (binary64 p - 10) \<le> binary64 (binary64 n)" by (rule binary64_mono)
    then have "\<not> binary64 n < binary64 (binary64 p - 10)" by (simp add: binary64_idem)
    with Some show ?thesis by (simp add: gradeDropped_def)
  qed
  with low show ?thesis by simp
qed

text \<open>
  In a configured deployment the handler takes its early return exactly when the decision
  says that no intervention is needed.
\<close>

lemma early_return_iff_not_needed:
  assumes "supabase_configured env"
  shows "(performance_intervention ts env req w
            = Some (\<lparr>status = 200, body = NotTriggered ''Grades satisfactory''\<rparr>, w))
         = (\<not> intervention_needed (req_new_grade req) (req_previous_grade req))"
  using assms
  by (auto simp add: performance_intervention_def intervention_try_def supabase_configured_def
        intervention_needed_def Let_def
      split: option.splits prod.splits settled.splits sum.splits db_write.splits if_splits)

lemma sample_completion: "content_unguarded (completion reply) = Inr (Some (JStr reply))"
  by (simp add: content_unguarded_def completion_def strict_prop_def strict_index0_def
        opt_prop_def opt_index0_def)

lemma sample_clock: "sample_text (JNum (of_nat (date_now deployed))) = ''1700000000000''"
  by (simp add: deployed_def decimal.simps)

text \<open>
  C1. Whenever the new score, as the number the handler holds, is below 50, the handler
  decides for the intervention whatever the previous score is (absent or any number):
  in no environment does it answer with the \<open>Grades satisfactory\<close> body, and in a
  configured deployment whose upstream settles it goes on to call the AI gateway with
  the intervention prompt.
\<close>

theorem low_grade_always_triggers:
  assumes "binary64 (req_new_grade req) < 50"
  shows "(\<forall>s reason w'. performance_intervention ts env req w
                           \<noteq> Some (\<lparr>status = s, body = NotTriggered reason\<rparr>, w'))
         \<and> (supabase_configured env \<and> env_or_empty (OPENROUTER_API_KEY env) \<noteq> []
              \<and> upstream_does env \<noteq> Silent
            \<longrightarrow> (\<exists>resp w'. performance_intervention ts env req w = Some (resp, w')
                    \<and> ai_calls w' = ai_calls w @ [intervention_ai_request ts env req]))"
proof -
  from assms have low: "isLowGrade (req_new_grade req)" by (simp add: isLowGrade_def)
  have never: "performance_intervention ts env req w
                 \<noteq> Some (\<lparr>status = s, body = NotTriggered reason\<rparr>, w')" for s reason w'
    using low
    by (auto simp add: performance_intervention_def intervention_try_def Let_def
        split: option.splits prod.splits settled.splits sum.splits db_write.splits if_splits)
  have calls: "\<exists>resp w'. performance_intervention ts env req w = Some (resp, w')
                 \<and> ai_calls w' = ai_calls w @ [intervention_ai_request ts env req]"
    if "supabase_configured env" "env_or_empty (OPENROUTER_API_KEY env) \<noteq> []"
       "upstream_does env \<noteq> Silent"
  proof (cases "upstream_does env")
    case (Answers t r)
    with that low show ?thesis
      by (auto simp add: performance_intervention_def intervention_try_def Let_def
            supabase_configured_def log_def
          split: option.splits sum.splits db_write.splits)
  next
    case (Breaks t)
    with that low show ?thesis
      by (simp add: performance_intervention_def intervention_try_def supabase_configured_def
            log_def)
  next
    case Silent
    with that show ?thesis by simp
  qed
  from never calls show ?thesis by blast
qed

text \<open>A first score of 45 in the sample deployment.\<close>

theorem low_grade_always_triggers_witness:
  "binary64 (req_new_grade first_low) < 50
   \<and> performance_intervention sample_text deployed first_low idle
       \<noteq> Some (\<lparr>status = 200, body = NotTriggered ''Grades satisfactory''\<rparr>, idle)
   \<and> (\<exists>resp w'. performance_intervention sample_text deployed first_low idle = Some (resp, w')
         \<and> ai_calls w' = ai_calls idle @ [intervention_ai_request sample_text deployed first_low])"
proof -
  have a: "binary64 (req_new_grade first_low) < 50"
    by (simp add: first_low_def)
  have b: "supabase_configured deployed \<and> env_or_empty (OPENROUTER_API_KEY deployed) \<noteq> []
           \<and> upstream_does deployed \<noteq> Silent"
    by (simp add: supabase_configured_def deployed_def env_or_empty_def)
  from low_grade_always_triggers [OF a, of sample_text deployed idle] a b
  show ?thesis by blast
qed

text \<open>
  C2 says that a previous score of 0 counts as a present previous score. The handler
  tests the previous score by truthiness, so at a previous score of 0 it takes the
  assessment for the first one: a new score of 45 after a 0 is labelled
  \<open>First Low Grade\<close>, not \<open>Low Grade\<close>, and a new score of -11 after a 0 is not a drop
  although -11 < 0 - 10.
\<close>

theorem zero_previous_grade_read_as_first_assessment:
  "isFirstAssessment (Some 0)
   \<and> status_label 45 (Some 0) = ''First Low Grade''
   \<and> \<not> gradeDropped (- 11) (Some 0)
   \<and> intervention_user_turn sample_text
        \<lparr>req_student_id = ''s1'', req_subject = ''Maths'', req_new_grade = 45,
         req_previous_grade = Some 0\<rparr>
       = JObj [(''role'', JStr ''user''),
               (''content'', JStr ''Student got 45% in Maths. This is their first assessment.'')]"
  by (simp add: isFirstAssessment_def has_previous_def status_label_def gradeDropped_def
        intervention_user_turn_def decimal.simps)

text \<open>
  Away from a previous score of 0 the decision and its label are as C2 describes them,
  with the comparisons made in binary64.
\<close>

lemma status_label_unless_zero:
  assumes "\<forall>p. prev = Some p \<longrightarrow> binary64 p \<noteq> 0" and "intervention_needed n prev"
  shows "(status_label n prev = ''First Low Grade'') = (prev = None \<and> binary64 n < 50)"
    and "(status_label n prev = ''Low Grade'') = (binary64 n < 50 \<and> prev \<noteq> None)"
    and "(status_label n prev = ''Grade Drop'')
           = ((\<exists>p. prev = Some p \<and> binary64 n < binary64 (binary64 p - 10)) \<and> 50 \<le> binary64 n)"
  using assms
  by (auto simp add: status_label_def isFirstAssessment_iff isLowGrade_def intervention_needed_def
        gradeDropped_iff)

lemma gradeDropped_unless_zero:
  "\<forall>p. prev = Some p \<longrightarrow> binary64 p \<noteq> 0
     \<Longrightarrow> gradeDropped n prev = (\<exists>p. prev = Some p \<and> binary64 n < binary64 (binary64 p - 10))"
  by (auto simp add: gradeDropped_iff)

text \<open>
  C3, as amended. When the new score is at least 50 and the previous score is absent or
  at most 10 above it, both read as the binary64 numbers that the handler holds, the
  handler returns, makes no call to the AI gateway and writes nothing to the
  conversation log; and when the data-store URL and service key are both configured,
  what it returns is status 200 with
  \<open>{intervention_triggered: false, reason: "Grades satisfactory"}\<close>, with no effect at
  all.
\<close>

theorem satisfactory_grades_leave_no_trace:
  assumes "50 \<le> binary64 (req_new_grade req)"
    and "req_previous_grade req = None
         \<or> (\<exists>p. req_previous_grade req = Some p
                \<and> binary64 p - 10 \<le> binary64 (req_new_grade req))"
  shows "\<exists>resp w'. performance_intervention ts env req w = Some (resp, w')
           \<and> ai_calls w' = ai_calls w \<and> chat_messages w' = chat_messages w
           \<and> (supabase_configured env \<longrightarrow>
                 resp = \<lparr>status = 200, body = NotTriggered ''Grades satisfactory''\<rparr> \<and> w' = w)"
proof -
  from assms have sat: "\<not> isLowGrade (req_new_grade req)
      \<and> \<not> gradeDropped (req_new_grade req) (req_previous_grade req)"
    by (rule satisfactory_iff)
  show ?thesis
  proof (cases "supabase_configured env")
    case True
    with sat show ?thesis
      by (simp add: performance_intervention_def intervention_try_def supabase_configured_def)
  next
    case False
    then show ?thesis
      by (auto simp add: performance_intervention_def intervention_try_def supabase_configured_def
            log_def)
  qed
qed

text \<open>
  A score of 78 after an 80, in a deployment configured as the sample one: the early
  return, and the effects untouched.
\<close>

theorem satisfactory_grades_leave_no_trace_witness:
  "performance_intervention sample_text deployed steady idle
     = Some (\<lparr>status = 200, body = NotTriggered ''Grades satisfactory''\<rparr>, idle)"
proof -
  have a: "50 \<le> binary64 (req_new_grade steady)" by (simp add: steady_def)
  have b: "req_previous_grade steady = None
         \<or> (\<exists>p. req_previous_grade steady = Some p
                \<and> binary64 p - 10 \<le> binary64 (req_new_grade steady))"
    by (simp add: steady_def)
  have c: "supabase_configured deployed"
    by (simp add: supabase_configured_def deployed_def env_or_empty_def)
  from satisfactory_grades_leave_no_trace [OF a b, of sample_text deployed idle] c
  show ?thesis by auto
qed

text \<open>
  C3 as stated fails where the data-store URL is not configured: the guard at the top
  of the handler throws before the decision is reached, and the same score of 78 after
  an 80 is answered with status 500.
\<close>

theorem satisfactory_grades_unconfigured_counterexample:
  "50 \<le> binary64 (req_new_grade steady)
   \<and> req_previous_grade steady = Some 80 \<and> binary64 80 - 10 \<le> binary64 (req_new_grade steady)
   \<and> performance_intervention sample_text (deployed\<lparr>SUPABASE_URL := None\<rparr>) steady idle
       = Some (\<lparr>status = 500,
                 body = InterventionFailed (Error ''Missing Supabase environment variables'')\<rparr>,
               idle\<lparr>console := [(LogError, ''Error in performance-intervention:'')]\<rparr>)"
  by (simp add: performance_intervention_def intervention_try_def steady_def deployed_def idle_def
        env_or_empty_def log_def)

text \<open>
  On paper a drop from 64.4 to 54.4 is a drop of ten points, not of more than ten; in
  binary64 it is more, and the handler of a configured deployment does not take the
  early return.
\<close>

lemma two_decimal_drop_of_ten_triggers:
  assumes "supabase_configured env"
    and "req_new_grade req = 272 / 5" and "req_previous_grade req = Some (322 / 5)"
  shows "performance_intervention ts env req w
           \<noteq> Some (\<lparr>status = 200, body = NotTriggered ''Grades satisfactory''\<rparr>, w)"
proof -
  have "intervention_needed (req_new_grade req) (req_previous_grade req)"
    unfolding assms(2,3) intervention_needed_def using two_decimal_drop_of_ten by blast
  with early_return_iff_not_needed [OF assms(1), of ts req w] show ?thesis by blast
qed

text \<open>
  C4, as amended. When the intervention triggers, the AI call succeeds (the upstream
  answers with a success status and a body whose \<open>choices[0].message.content\<close> can be
  read) and the data store stores the insert, the handler answers status 200 with
  \<open>intervention_triggered: true\<close>, the reply, the subject and the generated chat
  identifier; it has made one AI call and appended exactly one row, of role
  \<open>assistant\<close>, carrying the reply and the metadata
  \<open>{trigger: "performance_intervention", subject, grade, previous_grade}\<close>; nothing
  else has changed.
\<close>

theorem triggered_intervention_appends_one_assistant_row:
  assumes "supabase_configured env"
    and "intervention_needed (req_new_grade req) (req_previous_grade req)"
    and "env_or_empty (OPENROUTER_API_KEY env) \<noteq> []"
    and "upstream_does env = Answers t r" and "ok r" and "resp_json r = Some data"
    and "content_unguarded data = Inr aiMessage"
    and "insert_does env = Stored"
  shows "performance_intervention ts env req w
           = Some (\<lparr>status = 200,
                     body = Triggered aiMessage (req_subject req) (intervention_chatId ts env req)\<rparr>,
                   w\<lparr>ai_calls := ai_calls w @ [intervention_ai_request ts env req],
                     waited_ms := waited_ms w + t,
                     chat_messages :=
                       chat_messages w
                       @ [\<lparr>cm_student_id = JStr (req_student_id req), cm_role = ''assistant'',
                           cm_content = aiMessage,
                           cm_metadata = Some \<lparr>md_trigger = ''performance_intervention'',
                                               md_subject = req_subject req,
                                               md_grade = req_new_grade req,
                                               md_previous_grade = req_previous_grade req\<rparr>\<rparr>]\<rparr>)"
  using assms
  by (simp add: performance_intervention_def intervention_try_def supabase_configured_def
        intervention_needed_def intervention_row_def)

text \<open>A first score of 45 in the sample deployment.\<close>

theorem triggered_intervention_appends_one_assistant_row_witness:
  "performance_intervention sample_text deployed first_low idle
     = Some (\<lparr>status = 200,
               body = Triggered (Some (JStr ''Hello'')) ''Maths'' ''intervention_1700000000000_s1''\<rparr>,
             idle\<lparr>ai_calls := [intervention_ai_request sample_text deployed first_low],
                  waited_ms := 800,
                  chat_messages :=
                    [\<lparr>cm_student_id = JStr ''s1'', cm_role = ''assistant'',
                       cm_content = Some (JStr ''Hello''),
                       cm_metadata = Some \<lparr>md_trigger = ''performance_intervention'',
                                           md_subject = ''Maths'', md_grade = 45,
                                           md_previous_grade = None\<rparr>\<rparr>]\<rparr>)"
proof -
  have a: "supabase_configured deployed"
    by (simp add: supabase_configured_def deployed_def env_or_empty_def)
  have b: "intervention_needed (req_new_grade first_low) (req_previous_grade first_low)"
    by (simp add: intervention_needed_def isLowGrade_def first_low_def)
  have c: "env_or_empty (OPENROUTER_API_KEY deployed) \<noteq> []"
    by (simp add: deployed_def env_or_empty_def)
  have d: "upstream_does deployed
             = Answers 800 \<lparr>resp_status = 200, resp_json = Some (completion ''Hello'')\<rparr>"
    by (simp add: deployed_def)
  have e: "ok \<lparr>resp_status = 200, resp_json = Some (completion ''Hello'')\<rparr>"
    by (simp add: ok_def)
  have f: "resp_json \<lparr>resp_status = 200, resp_json = Some (completion ''Hello'')\<rparr>
             = Some (completion ''Hello'')"
    by simp
  have g: "insert_does deployed = Stored"
    by (simp add: deployed_def)
  have h: "intervention_chatId sample_text deployed first_low = ''intervention_1700000000000_s1''"
    using sample_clock by (simp add: intervention_chatId_def first_low_def)
  from triggered_intervention_appends_one_assistant_row
         [OF a b c d e f sample_completion g, of sample_text idle] h
  show ?thesis by (simp add: first_low_def idle_def)
qed

text \<open>
  C4 as stated fails where the data store refuses the insert: the handler does not read
  the result of the insert, so the same request is answered with
  \<open>intervention_triggered: true\<close> although no row has been appended.
\<close>

theorem refused_insert_appends_nothing_counterexample:
  "intervention_needed (req_new_grade first_low) (req_previous_grade first_low)
   \<and> performance_intervention sample_text (deployed\<lparr>insert_does := Refused\<rparr>) first_low idle
       = Some (\<lparr>status = 200,
                 body = Triggered (Some (JStr ''Hello'')) ''Maths'' ''intervention_1700000000000_s1''\<rparr>,
               idle\<lparr>ai_calls := [intervention_ai_request sample_text
                                     (deployed\<lparr>insert_does := Refused\<rparr>) first_low],
                    waited_ms := 800\<rparr>)
   \<and> chat_messages (idle\<lparr>ai_calls := [intervention_ai_request sample_text
                                          (deployed\<lparr>insert_does := Refused\<rparr>) first_low],
                         waited_ms := 800\<rparr>) = chat_messages idle"
  using sample_clock
  by (simp add: performance_intervention_def intervention_try_def first_low_def deployed_def
        idle_def env_or_empty_def intervention_needed_def isLowGrade_def ok_def
        sample_completion intervention_chatId_def)

text \<open>
  The outbound call of this handler has no time limit: on a silent upstream it never
  returns.
\<close>

lemma intervention_hangs_on_silent_upstream:
  assumes "supabase_configured env"
    and "intervention_needed (req_new_grade req) (req_previous_grade req)"
    and "env_or_empty (OPENROUTER_API_KEY env) \<noteq> []"
    and "upstream_does env = Silent"
  shows "performance_intervention ts env req w = None"
  using assms
  by (simp add: performance_intervention_def intervention_try_def supabase_configured_def
        intervention_needed_def)

section \<open>Properties of the two direct-chat functions\<close>

lemma sample_one_turn:
  "messages_of (chat_body (Some one_turn))
     = Some [JObj [(''role'', JStr ''user''), (''content'', JStr ''Hi'')]]"
  by (simp add: messages_of_def chat_body_def one_turn_def opt_prop_def)

lemma sample_destructure:
  "destructure_messages (Some one_turn)
     = Inr (Some (JArr [JObj [(''role'', JStr ''user''), (''content'', JStr ''Hi'')]]))"
  by (simp add: destructure_messages_def one_turn_def strict_prop_def opt_prop_def)

lemma sample_reply: "aiMessage_of stringify (completion reply) = Some (JStr reply)"
  by (simp add: aiMessage_of_def completion_def opt_prop_def opt_index0_def coalesce_def)

subsection \<open>Persistence failures\<close>

text \<open>
  In the minimal function, once the upstream has answered with a success status the
  response is status 200 with the reply, whatever the insert does.
\<close>

lemma minimal_chat_reply_survives_insert_failure:
  assumes "messages_of (chat_body parsed) = Some messages"
    and "env_or_empty (OPENROUTER_API_KEY env) \<noteq> []"
    and "upstream_does env = Answers t r" and "t < timeoutMs" and "ok r"
  shows "fst (ai_chat ts stringify env parsed w)
           = \<lparr>status = 200,
              body = ChatReply (aiMessage_of stringify (chat_data r))
                       (chat_chatId ts env (providedStudentId (chat_body parsed)))\<rparr>"
  using assms
  by (simp add: ai_chat_def chat_try_def chat_after_fetch_def Let_def)

text \<open>There, an insert that rejects is logged; an insert that is refused is not.\<close>

lemma raised_insert_is_logged:
  "last_content messages = Inr c \<Longrightarrow> insert_does env = Raised e
     \<Longrightarrow> chat_persist env sid messages m w = log LogError ''Failed to insert chat messages:'' w"
  by (simp add: chat_persist_def)

lemma refused_insert_is_silent:
  "last_content messages = Inr c \<Longrightarrow> insert_does env = Refused
     \<Longrightarrow> chat_persist env sid messages m w = w"
  by (simp add: chat_persist_def)

text \<open>
  C5 says that a failed write of the two rows is logged and swallowed, and the reply
  still returned with status 200. The authenticated function has no \<open>try\<close> around its
  insert: when the insert rejects, or when the user row cannot be built because the
  history is empty, the reply that the gateway produced is lost and the response is
  status 500. And in the minimal function an insert that the data store refuses is
  swallowed without being logged: the console stays empty.
\<close>

theorem persistence_failure_not_isolated:
  "ai_chat_authenticated sample_text (deployed\<lparr>insert_does := Raised StoreFailure\<rparr>)
     (Some ''Bearer tok'') (Some one_turn) idle
   = Some (\<lparr>status = 500, body = AuthFailed StoreFailure\<rparr>,
           idle\<lparr>ai_calls :=
                  [auth_ai_request sample_text (deployed\<lparr>insert_does := Raised StoreFailure\<rparr>)
                     [JObj [(''role'', JStr ''user''), (''content'', JStr ''Hi'')]]],
                waited_ms := 800,
                console := [(LogError, ''Error in ai-chat function:'')]\<rparr>)
   \<and> ai_chat_authenticated sample_text deployed (Some ''Bearer tok'') (Some no_turns) idle
   = Some (\<lparr>status = 500, body = AuthFailed TypeError\<rparr>,
           idle\<lparr>ai_calls := [auth_ai_request sample_text deployed []],
                waited_ms := 800,
                console := [(LogError, ''Error in ai-chat function:'')]\<rparr>)
   \<and> ai_chat sample_text sample_stringify (deployed\<lparr>insert_does := Refused\<rparr>) (Some one_turn) idle
   = (\<lparr>status = 200, body = ChatReply (Some (JStr ''Hello'')) ''chat_1700000000000_s1''\<rparr>,
      idle\<lparr>ai_calls :=
             [chat_ai_request (deployed\<lparr>insert_does := Refused\<rparr>)
                [JObj [(''role'', JStr ''user''), (''content'', JStr ''Hi'')]]],
           waited_ms := 800,
           console := []\<rparr>)"
proof (intro conjI)
  show "ai_chat_authenticated sample_text (deployed\<lparr>insert_does := Raised StoreFailure\<rparr>)
     (Some ''Bearer tok'') (Some one_turn) idle
   = Some (\<lparr>status = 500, body = AuthFailed StoreFailure\<rparr>,
           idle\<lparr>ai_calls :=
                  [auth_ai_request sample_text (deployed\<lparr>insert_does := Raised StoreFailure\<rparr>)
                     [JObj [(''role'', JStr ''user''), (''content'', JStr ''Hi'')]]],
                waited_ms := 800,
                console := [(LogError, ''Error in ai-chat function:'')]\<rparr>)"
    by (simp add: ai_chat_authenticated_def auth_try_def sample_destructure createClient_def
          deployed_def env_or_empty_def sample_user_def auth_after_fetch_def ok_def log_def idle_def
          sample_completion last_content_def strict_prop_def opt_prop_def)
next
  have "destructure_messages (Some no_turns) = Inr (Some (JArr []))"
    by (simp add: destructure_messages_def no_turns_def strict_prop_def opt_prop_def)
  then
  show "ai_chat_authenticated sample_text deployed (Some ''Bearer tok'') (Some no_turns) idle
   = Some (\<lparr>status = 500, body = AuthFailed TypeError\<rparr>,
           idle\<lparr>ai_calls := [auth_ai_request sample_text deployed []],
                waited_ms := 800,
                console := [(LogError, ''Error in ai-chat function:'')]\<rparr>)"
    by (simp add: ai_chat_authenticated_def auth_try_def createClient_def
          deployed_def env_or_empty_def sample_user_def auth_after_fetch_def ok_def log_def idle_def
          sample_completion last_content_def strict_prop_def)
next
  have "last_content [JObj [(''role'', JStr ''user''), (''content'', JStr ''Hi'')]]
          = Inr (Some (JStr ''Hi''))"
    by (simp add: last_content_def strict_prop_def opt_prop_def)
  moreover have "providedStudentId (chat_body (Some one_turn)) = JStr ''s1''"
    by (simp add: providedStudentId_def chat_body_def one_turn_def opt_prop_def coalesce_def)
  ultimately
  show "ai_chat sample_text sample_stringify (deployed\<lparr>insert_does := Refused\<rparr>) (Some one_turn) idle
   = (\<lparr>status = 200, body = ChatReply (Some (JStr ''Hello'')) ''chat_1700000000000_s1''\<rparr>,
      idle\<lparr>ai_calls :=
             [chat_ai_request (deployed\<lparr>insert_does := Refused\<rparr>)
                [JObj [(''role'', JStr ''user''), (''content'', JStr ''Hi'')]]],
           waited_ms := 800,
           console := []\<rparr>)"
    using sample_clock
    by (simp add: ai_chat_def chat_try_def sample_one_turn supabase_configured_def deployed_def
          env_or_empty_def timeoutMs_def clearTimeout_def chat_after_fetch_def ok_def chat_data_def
          chat_chatId_def coalesce_def chat_persist_def idle_def sample_reply)
qed

subsection \<open>Upstream failures\<close>

text \<open>The minimal function turns every non-success status of the upstream into a 502.\<close>

lemma minimal_chat_upstream_error_gives_502:
  assumes "messages_of (chat_body parsed) = Some messages"
    and "env_or_empty (OPENROUTER_API_KEY env) \<noteq> []"
    and "upstream_does env = Answers t r" and "t < timeoutMs" and "\<not> ok r"
  shows "fst (ai_chat ts stringify env parsed w)
           = \<lparr>status = 502,
              body = ChatError (''AI provider error ''
                                 @ template ts (Some (JNum (of_nat (resp_status r)))))\<rparr>"
  using assms
  by (simp add: ai_chat_def chat_try_def chat_after_fetch_def clearTimeout_def log_def)

text \<open>
  C6 says that a non-success status of the upstream is answered with status 502. The
  authenticated function throws \<open>AI API error: 500\<close> into its only \<open>catch\<close>, which
  answers with the generic status 500.
\<close>

theorem authenticated_chat_upstream_500_gives_500:
  "ai_chat_authenticated sample_text
     (deployed\<lparr>upstream_does := Answers 800 \<lparr>resp_status = 500, resp_json = None\<rparr>\<rparr>)
     (Some ''Bearer tok'') (Some one_turn) idle
   = Some (\<lparr>status = 500, body = AuthFailed (Error ''AI API error: 500'')\<rparr>,
           idle\<lparr>ai_calls :=
                  [auth_ai_request sample_text
                     (deployed\<lparr>upstream_does := Answers 800 \<lparr>resp_status = 500, resp_json = None\<rparr>\<rparr>)
                     [JObj [(''role'', JStr ''user''), (''content'', JStr ''Hi'')]]],
                waited_ms := 800,
                console := [(LogError, ''AI API error:''), (LogError, ''Error in ai-chat function:'')]\<rparr>)"
  by (simp add: ai_chat_authenticated_def auth_try_def sample_destructure createClient_def
        deployed_def env_or_empty_def sample_user_def auth_after_fetch_def ok_def log_def idle_def
        decimal.simps)

text \<open>
  When the upstream never responds to the call of the minimal direct-chat function, the
  timer armed for 15000 milliseconds fires, the call is aborted, and the response is
  status 504 \<open>AI provider timeout\<close>; the handler has waited 15000 milliseconds, made the
  one call, left no call open and no timer armed, and written nothing to the
  conversation log.
\<close>

lemma silent_upstream_times_out:
  assumes "messages_of (chat_body parsed) = Some messages"
    and "env_or_empty (OPENROUTER_API_KEY env) \<noteq> []"
    and "upstream_does env = Silent"
  shows "fst (ai_chat ts stringify env parsed w)
           = \<lparr>status = 504, body = ChatError ''AI provider timeout''\<rparr>
         \<and> waited_ms (snd (ai_chat ts stringify env parsed w)) = waited_ms w + 15000
         \<and> open_calls (snd (ai_chat ts stringify env parsed w)) = open_calls w
         \<and> armed_timers (snd (ai_chat ts stringify env parsed w)) = armed_timers w
         \<and> ai_calls (snd (ai_chat ts stringify env parsed w))
             = ai_calls w @ [chat_ai_request env messages]
         \<and> chat_messages (snd (ai_chat ts stringify env parsed w)) = chat_messages w"
  using assms
  by (simp add: ai_chat_def chat_try_def timer_fires_def clearTimeout_def log_def timeoutMs_def)

lemma silent_upstream_times_out_sample:
  "fst (ai_chat sample_text sample_stringify (deployed\<lparr>upstream_does := Silent\<rparr>) (Some one_turn) idle)
     = \<lparr>status = 504, body = ChatError ''AI provider timeout''\<rparr>
   \<and> waited_ms (snd (ai_chat sample_text sample_stringify (deployed\<lparr>upstream_does := Silent\<rparr>)
                        (Some one_turn) idle)) = 15000
   \<and> open_calls (snd (ai_chat sample_text sample_stringify (deployed\<lparr>upstream_does := Silent\<rparr>)
                         (Some one_turn) idle)) = 0
   \<and> armed_timers (snd (ai_chat sample_text sample_stringify (deployed\<lparr>upstream_does := Silent\<rparr>)
                           (Some one_turn) idle)) = 0"
proof -
  have b: "env_or_empty (OPENROUTER_API_KEY (deployed\<lparr>upstream_does := Silent\<rparr>)) \<noteq> []"
    by (simp add: deployed_def env_or_empty_def)
  have c: "upstream_does (deployed\<lparr>upstream_does := Silent\<rparr>) = Silent"
    by simp
  from silent_upstream_times_out [OF sample_one_turn b c, of sample_text sample_stringify idle]
  show ?thesis by (simp add: idle_def)
qed

text \<open>The same holds of an upstream that answers or breaks too late.\<close>

lemma late_upstream_times_out:
  assumes "messages_of (chat_body parsed) = Some messages"
    and "env_or_empty (OPENROUTER_API_KEY env) \<noteq> []"
    and "upstream_does env = Answers t r \<or> upstream_does env = Breaks t" and "timeoutMs \<le> t"
  shows "fst (ai_chat ts stringify env parsed w)
           = \<lparr>status = 504, body = ChatError ''AI provider timeout''\<rparr>
         \<and> waited_ms (snd (ai_chat ts stringify env parsed w)) = waited_ms w + timeoutMs"
  using assms
  by (auto simp add: ai_chat_def chat_try_def timer_fires_def clearTimeout_def log_def)

lemma authenticated_chat_hangs_on_silent_upstream:
  assumes "destructure_messages parsed = Inr messages" and "spread messages = Inr ms"
    and "h \<noteq> []" and "createClient env = Inr ()"
    and "auth_user env (replace_first ''Bearer '' [] h) = Some uid"
    and "upstream_does env = Silent"
  shows "ai_chat_authenticated ts env (Some h) parsed w = None"
  using assms
  by (simp add: ai_chat_authenticated_def auth_try_def)

text \<open>
  C7 says that every direct-chat request whose upstream never responds is aborted at
  the 15-second bound and answered with status 504. The authenticated function passes
  no abort signal to its call and arms no timer: with a valid token and a one-turn
  history it waits on the silent upstream for ever and never answers.
\<close>

theorem authenticated_chat_silent_upstream_never_returns:
  "ai_chat_authenticated sample_text (deployed\<lparr>upstream_does := Silent\<rparr>)
     (Some ''Bearer tok'') (Some one_turn) idle = None"
  by (simp add: ai_chat_authenticated_def auth_try_def sample_destructure createClient_def
        deployed_def env_or_empty_def sample_user_def)

subsection \<open>Bodies of the upstream that are not the expected completion\<close>

text \<open>
  The minimal function reads the reply with optional chaining and falls back twice: the
  result is never \<open>undefined\<close> or \<open>null\<close>, and without \<open>content\<close> and \<open>message\<close> it is the
  first 2000 characters of the serialised body.
\<close>

lemma aiMessage_never_nullish: "\<not> nullish (aiMessage_of stringify data)"
  by (simp add: aiMessage_of_def coalesce_def)

lemma aiMessage_fallback:
  assumes "nullish (opt_prop (opt_prop (opt_index0 (opt_prop (Some data) ''choices'')) ''message'')
                      ''content'')"
    and "nullish (opt_prop (Some data) ''message'')"
  shows "aiMessage_of stringify data = Some (JStr (take 2000 (stringify data)))"
  using assms by (simp add: aiMessage_of_def coalesce_def)

lemma aiMessage_unparseable:
  "resp_json r = None
     \<Longrightarrow> aiMessage_of stringify (chat_data r) = Some (JStr (take 2000 (stringify JNull)))"
  by (simp add: aiMessage_of_def coalesce_def chat_data_def opt_prop_def opt_index0_def)

text \<open>
  C8 says that a body of the upstream that is not JSON, or has not the shape
  \<open>choices[0].message.content\<close>, is never propagated as an exception. The authenticated
  function reads the body unguarded: the body \<open>{}\<close> raises a \<open>TypeError\<close> and a body that
  is not JSON raises a \<open>SyntaxError\<close>, and either is answered with status 500 and no
  reply.
\<close>

theorem authenticated_chat_unexpected_body_gives_500:
  "ai_chat_authenticated sample_text
     (deployed\<lparr>upstream_does := Answers 800 \<lparr>resp_status = 200, resp_json = Some (JObj [])\<rparr>\<rparr>)
     (Some ''Bearer tok'') (Some one_turn) idle
   = Some (\<lparr>status = 500, body = AuthFailed TypeError\<rparr>,
           idle\<lparr>ai_calls :=
                  [auth_ai_request sample_text
                     (deployed\<lparr>upstream_does := Answers 800 \<lparr>resp_status = 200, resp_json = Some (JObj [])\<rparr>\<rparr>)
                     [JObj [(''role'', JStr ''user''), (''content'', JStr ''Hi'')]]],
                waited_ms := 800,
                console := [(LogError, ''Error in ai-chat function:'')]\<rparr>)
   \<and> ai_chat_authenticated sample_text
     (deployed\<lparr>upstream_does := Answers 800 \<lparr>resp_status = 200, resp_json = None\<rparr>\<rparr>)
     (Some ''Bearer tok'') (Some one_turn) idle
   = Some (\<lparr>status = 500, body = AuthFailed SyntaxError\<rparr>,
           idle\<lparr>ai_calls :=
                  [auth_ai_request sample_text
                     (deployed\<lparr>upstream_does := Answers 800 \<lparr>resp_status = 200, resp_json = None\<rparr>\<rparr>)
                     [JObj [(''role'', JStr ''user''), (''content'', JStr ''Hi'')]]],
                waited_ms := 800,
                console := [(LogError, ''Error in ai-chat function:'')]\<rparr>)"
  by (simp add: ai_chat_authenticated_def auth_try_def sample_destructure createClient_def
        deployed_def env_or_empty_def sample_user_def auth_after_fetch_def ok_def log_def idle_def
        content_unguarded_def strict_prop_def strict_index0_def opt_prop_def)

subsection \<open>The validation of the message history\<close>

lemma chat_after_fetch_status:
  "status (fst (chat_after_fetch ts stringify env sid messages r w)) = (if ok r then 200 else 502)"
  by (simp add: chat_after_fetch_def Let_def)

lemma missing_array_is_rejected:
  "messages_of (chat_body parsed) = None
     \<Longrightarrow> ai_chat ts stringify env parsed w
           = (\<lparr>status = 400, body = ChatError ''Missing messages array in body''\<rparr>, w)"
  by (simp add: ai_chat_def chat_try_def)

lemma chat_try_accepts_array:
  assumes "messages_of (chat_body parsed) = Some messages"
  shows "status (fst (ai_chat ts stringify env parsed w)) \<in> {200, 500, 502, 504}"
proof (cases "env_or_empty (OPENROUTER_API_KEY env) = []")
  case True
  with assms show ?thesis by (simp add: ai_chat_def chat_try_def)
next
  case False
  define w1 where "w1 = (if supabase_configured env then w
                         else log LogWarn ''Supabase env vars not set; DB inserts will be skipped.'' w)"
  obtain s fired w2 where
    f: "fetch_abortable timeoutMs (upstream_does env)
          (w1\<lparr>armed_timers := armed_timers w1 + 1,
              ai_calls := ai_calls w1 @ [chat_ai_request env messages],
              open_calls := open_calls w1 + 1\<rparr>) = (s, fired, w2)"
    by (metis prod_cases3)
  show ?thesis
  proof (cases s)
    case (Rejected e)
    with assms False f [unfolded w1_def] show ?thesis
      by (simp add: ai_chat_def chat_try_def Let_def)
  next
    case (Resolved r)
    obtain resp w3 where
      g: "chat_after_fetch ts stringify env (providedStudentId (chat_body parsed)) messages r
            (clearTimeout fired w2) = (resp, w3)"
      by fastforce
    with chat_after_fetch_status
           [of ts stringify env "providedStudentId (chat_body parsed)" messages r
               "clearTimeout fired w2"]
    have "status resp = (if ok r then 200 else 502)"
      by simp
    with assms False f [unfolded w1_def] Resolved g show ?thesis
      by (simp add: ai_chat_def chat_try_def Let_def)
  qed
qed

text \<open>
  C10. A body whose \<open>messages\<close> is the empty array passes the validation of the minimal
  direct-chat function: the history read is the empty list and the response is never
  the 400. Reading \<open>content\<close> of the last element of the empty array throws; when the
  persistence step is reached (data store configured, API key present, the upstream
  answering in time with a success status) that throw is caught and logged there, no row
  is written, and the response is status 200 with the reply.
\<close>

theorem empty_history_passes_validation:
  assumes "opt_prop (Some b) ''messages'' = Some (JArr [])"
  shows "messages_of (chat_body (Some b)) = Some []
         \<and> status (fst (ai_chat ts stringify env (Some b) w)) \<noteq> 400
         \<and> last_content [] = Inl TypeError
         \<and> (supabase_configured env \<and> env_or_empty (OPENROUTER_API_KEY env) \<noteq> []
              \<and> upstream_does env = Answers t r \<and> t < timeoutMs \<and> ok r
            \<longrightarrow> ai_chat ts stringify env (Some b) w
                  = (\<lparr>status = 200,
                      body = ChatReply (aiMessage_of stringify (chat_data r))
                               (chat_chatId ts env (providedStudentId b))\<rparr>,
                     w\<lparr>ai_calls := ai_calls w @ [chat_ai_request env []],
                       waited_ms := waited_ms w + t,
                       console := console w @ [(LogError, ''Failed to insert chat messages:'')]\<rparr>))"
proof -
  from assms have m: "messages_of (chat_body (Some b)) = Some []"
    by (simp add: messages_of_def chat_body_def)
  have t: "last_content [] = Inl TypeError"
    by (simp add: last_content_def strict_prop_def)
  from chat_try_accepts_array [OF m, of ts stringify env w]
  have s: "status (fst (ai_chat ts stringify env (Some b) w)) \<noteq> 400"
    by auto
  from m t have e: "supabase_configured env \<and> env_or_empty (OPENROUTER_API_KEY env) \<noteq> []
              \<and> upstream_does env = Answers t r \<and> t < timeoutMs \<and> ok r
            \<longrightarrow> ai_chat ts stringify env (Some b) w
                  = (\<lparr>status = 200,
                      body = ChatReply (aiMessage_of stringify (chat_data r))
                               (chat_chatId ts env (providedStudentId b))\<rparr>,
                     w\<lparr>ai_calls := ai_calls w @ [chat_ai_request env []],
                       waited_ms := waited_ms w + t,
                       console := console w @ [(LogError, ''Failed to insert chat messages:'')]\<rparr>)"
    by (simp add: ai_chat_def chat_try_def chat_after_fetch_def chat_persist_def clearTimeout_def
          log_def chat_body_def)
  from m s t e show ?thesis by blast
qed

theorem empty_history_passes_validation_witness:
  "messages_of (chat_body (Some no_turns)) = Some []
   \<and> status (fst (ai_chat sample_text sample_stringify deployed (Some no_turns) idle)) \<noteq> 400
   \<and> ai_chat sample_text sample_stringify deployed (Some no_turns) idle
       = (\<lparr>status = 200, body = ChatReply (Some (JStr ''Hello'')) ''chat_1700000000000_anon''\<rparr>,
          idle\<lparr>ai_calls := [chat_ai_request deployed []],
               waited_ms := 800,
               console := [(LogError, ''Failed to insert chat messages:'')]\<rparr>)"
proof -
  have a: "opt_prop (Some no_turns) ''messages'' = Some (JArr [])"
    by (simp add: no_turns_def opt_prop_def)
  have c: "supabase_configured deployed \<and> env_or_empty (OPENROUTER_API_KEY deployed) \<noteq> []
           \<and> upstream_does deployed
               = Answers 800 \<lparr>resp_status = 200, resp_json = Some (completion ''Hello'')\<rparr>
           \<and> 800 < timeoutMs
           \<and> ok \<lparr>resp_status = 200, resp_json = Some (completion ''Hello'')\<rparr>"
    by (simp add: supabase_configured_def deployed_def env_or_empty_def timeoutMs_def ok_def)
  have d: "aiMessage_of sample_stringify
             (chat_data \<lparr>resp_status = 200, resp_json = Some (completion ''Hello'')\<rparr>)
           = Some (JStr ''Hello'')"
    by (simp add: chat_data_def sample_reply)
  have e: "chat_chatId sample_text deployed (providedStudentId no_turns) = ''chat_1700000000000_anon''"
    using sample_clock
    by (simp add: chat_chatId_def providedStudentId_def no_turns_def opt_prop_def coalesce_def)
  from empty_history_passes_validation
         [OF a, of sample_text sample_stringify deployed idle 800
            "\<lparr>resp_status = 200, resp_json = Some (completion ''Hello'')\<rparr>"] c d e
  show ?thesis by (simp add: idle_def)
qed

section \<open>Properties of the context assembler\<close>

text \<open>
  C9. When the query for the student's performance records returns no rows (an empty
  array, or \<open>null\<close>), the section under \<open>Recent Performance:\<close> of the assembled context is
  the literal \<open>No recent records\<close>; the assembly is a total function to a string, with
  no failing branch.
\<close>

theorem no_performance_rows_render_placeholder:
  assumes "recentPerformance = None \<or> recentPerformance = Some []"
  shows "recent_performance_section ts recentPerformance = ''No recent records''
         \<and> studentContext ts profile recentPerformance mentors resources
             = profile_block ts profile @ nl
               @ ''Recent Performance:'' @ nl
               @ ''No recent records'' @ nl
               @ nl
               @ ''Available Local Mentors:'' @ nl
               @ mentors_section ts mentors @ nl
               @ nl
               @ ''Support Resources:'' @ nl
               @ resources_section ts resources @ nl"
  using assms
  by (auto simp add: studentContext_def recent_performance_section_def list_section_def)

theorem no_performance_rows_render_placeholder_witness:
  "recent_performance_section sample_text (performance_rows deployed) = ''No recent records''
   \<and> studentContext sample_text (profile_row deployed) (performance_rows deployed)
        (mentor_rows deployed) (resource_rows deployed)
       = profile_block sample_text None @ nl
         @ ''Recent Performance:'' @ nl
         @ ''No recent records'' @ nl
         @ nl
         @ ''Available Local Mentors:'' @ nl
         @ ''No mentors available'' @ nl
         @ nl
         @ ''Support Resources:'' @ nl
         @ ''No resources available'' @ nl"
proof -
  have a: "performance_rows deployed = None \<or> performance_rows deployed = Some []"
    by (simp add: deployed_def)
  have b: "mentors_section sample_text (mentor_rows deployed) = ''No mentors available''"
    by (simp add: mentors_section_def list_section_def deployed_def)
  have c: "resources_section sample_text (resource_rows deployed) = ''No resources available''"
    by (simp add: resources_section_def list_section_def deployed_def)
  have d: "profile_row deployed = None"
    by (simp add: deployed_def)
  from no_performance_rows_render_placeholder
         [OF a, of sample_text "profile_row deployed" "mentor_rows deployed" "resource_rows deployed"]
       b c d
  show ?thesis by simp
qed

text \<open>With rows, the section is never the placeholder and never empty.\<close>

lemma performance_rows_render_lines:
  "rows \<noteq> [] \<Longrightarrow> recent_performance_section ts (Some rows)
                   = js_join nl (map (performance_line ts) rows)"
proof (cases rows)
  case Nil
  assume "rows \<noteq> []"
  with Nil show ?thesis by simp
next
  case (Cons r rs)
  have "js_join nl (map (performance_line ts) (r # rs)) \<noteq> []"
    by (cases rs) (simp_all add: performance_line_def)
  with Cons show ?thesis
    by (simp add: recent_performance_section_def list_section_def Let_def)
qed

end
